theory Spec2Isabelle
  imports Complex_Main
begin

section \<open>Python and numpy primitives used by \<open>sanpy/bAnalysis.py\<close>\<close>

text \<open>
  Samples of a recording are modelled as \<open>real\<close>, sample indices as \<open>int\<close> (Python
  indices may be negative and then count from the end). Every raise of the source is a
  value \<open>Inl e\<close> of a result type \<open>py_error + 'a\<close>.
\<close>

datatype py_error = IndexError | ValueError | TypeError | KeyError

text \<open>Sequencing of fallible steps: the first raise aborts what follows.\<close>

definition ebind :: "py_error + 'a \<Rightarrow> ('a \<Rightarrow> py_error + 'b) \<Rightarrow> py_error + 'b" where
  "ebind m f = (case m of Inl e \<Rightarrow> Inl e | Inr v \<Rightarrow> f v)"

text \<open>
  A numpy float that may be \<open>nan\<close> or \<open>inf\<close> (numpy divides by zero with a warning,
  giving \<open>inf\<close>), and an integer field whose default is \<open>float('nan')\<close>.
\<close>

datatype 'a nan_or = NaN | Num 'a | PosInf

text \<open>
  The bounds of a slice \<open>xs[a:b]\<close>: a negative bound counts from the end, and both are
  clamped to \<open>0..len(xs)\<close>; a slice never raises.
\<close>

definition py_norm :: "nat \<Rightarrow> int \<Rightarrow> nat" where
  "py_norm n i = (if i < 0 then nat (int n + i) else min n (nat i))"

definition py_slice :: "'a list \<Rightarrow> int \<Rightarrow> int \<Rightarrow> 'a list" where
  "py_slice xs a b =
     (let n = length xs; lo = py_norm n a; hi = py_norm n b
      in take (hi - lo) (drop lo xs))"

text \<open>Indexing \<open>xs[i]\<close>: a negative index counts from the end, out of range raises.\<close>

definition py_index :: "'a list \<Rightarrow> int \<Rightarrow> py_error + 'a" where
  "py_index xs i =
     (if int (length xs) \<le> i \<or> i < - int (length xs) then Inl IndexError
      else if i < 0 then Inr (xs ! nat (int (length xs) + i))
      else Inr (xs ! nat i))"

text \<open>Python 3 \<open>round(x)\<close>: to the nearest integer, a tie goes to the even one.\<close>

definition py_round :: "real \<Rightarrow> int" where
  "py_round x =
     (let f = \<lfloor>x\<rfloor>; d = x - of_int f
      in if d < 1 / 2 then f else if 1 / 2 < d then f + 1
         else if even f then f else f + 1)"

text \<open>
  A product of two floats is rounded to the nearest IEEE 754 double, a tie going to the
  even significand. \<open>bit_length\<close> is the number of binary digits of a positive integer and
  \<open>double_exponent x\<close> the integer \<open>e\<close> with \<open>2^e \<le> |x| < 2^(e+1)\<close>; a double has 53
  significant bits, so it is a multiple \<open>m * 2^(e-52)\<close>, of \<open>2^-1074\<close> in the subnormal
  range. A result of magnitude \<open>2^1024\<close> or more is infinite: that is the case when
  \<open>e\<close> is 1024 or more, or \<open>e\<close> is 1023 and the significand is rounded up to \<open>2^53\<close>.
\<close>

function bit_length :: "int \<Rightarrow> nat" where
  "bit_length n = (if n \<le> 0 then 0 else Suc (bit_length (n div 2)))"
  by pat_completeness auto
termination
  by (relation "measure nat") auto

declare bit_length.simps [simp del]

definition pow2 :: "int \<Rightarrow> real" where
  "pow2 e = (if 0 \<le> e then 2 ^ nat e else 1 / 2 ^ nat (- e))"

definition double_exponent :: "real \<Rightarrow> int" where
  "double_exponent x =
     (if 1 \<le> \<bar>x\<bar> then int (bit_length \<lfloor>\<bar>x\<bar>\<rfloor>) - 1
      else - int (bit_length (\<lceil>1 / \<bar>x\<bar>\<rceil> - 1)))"

datatype double = Finite real | PlusInf | MinusInf

definition double_round :: "real \<Rightarrow> double" where
  "double_round x =
     (if x = 0 then Finite 0
      else let e = max (double_exponent x) (- 1022);
               m = py_round (x / pow2 (e - 52))
           in if 1024 \<le> e \<or> e = 1023 \<and> 2 ^ 53 \<le> \<bar>m\<bar>
              then (if 0 < x then PlusInf else MinusInf)
              else Finite (of_int m * pow2 (e - 52)))"

definition double_mul :: "real \<Rightarrow> real \<Rightarrow> double" where
  "double_mul a b = double_round (a * b)"

text \<open>The comparison \<open>n < x\<close> of an integer with a double.\<close>

fun int_less_double :: "int \<Rightarrow> double \<Rightarrow> bool" where
  "int_less_double n (Finite x) = (of_int n < x)"
| "int_less_double n PlusInf = True"
| "int_less_double n MinusInf = False"

text \<open>\<open>int(x)\<close> truncates towards zero.\<close>

definition py_int :: "real \<Rightarrow> int" where
  "py_int x = (if 0 \<le> x then \<lfloor>x\<rfloor> else \<lceil>x\<rceil>)"

text \<open>\<open>np.where(cond)[0]\<close>: the indices at which the condition holds, ascending.\<close>

definition np_where :: "('a \<Rightarrow> bool) \<Rightarrow> 'a list \<Rightarrow> int list" where
  "np_where P xs = map int (filter (\<lambda>i. P (xs ! i)) [0..<length xs])"

text \<open>\<open>np.where(cond)[0][0]\<close>: the first such index, IndexError when there is none.\<close>

definition np_where_first :: "('a \<Rightarrow> bool) \<Rightarrow> 'a list \<Rightarrow> py_error + int" where
  "np_where_first P xs = (case np_where P xs of [] \<Rightarrow> Inl IndexError | k # _ \<Rightarrow> Inr k)"

text \<open>\<open>np.max\<close>, \<open>np.argmax\<close>, \<open>np.argmin\<close>: ValueError on an empty array, the first
  extremal index otherwise.\<close>

fun np_max :: "real list \<Rightarrow> py_error + real" where
  "np_max [] = Inl ValueError"
| "np_max (x # xs) = Inr (fold max xs x)"

fun np_argmax :: "real list \<Rightarrow> py_error + int" where
  "np_argmax [] = Inl ValueError"
| "np_argmax (x # xs) =
     Inr (int (length (takeWhile (\<lambda>v. v \<noteq> fold max xs x) (x # xs))))"

fun np_argmin :: "real list \<Rightarrow> py_error + int" where
  "np_argmin [] = Inl ValueError"
| "np_argmin (x # xs) =
     Inr (int (length (takeWhile (\<lambda>v. v \<noteq> fold min xs x) (x # xs))))"

text \<open>\<open>np.mean\<close> / \<open>np.average\<close>: NaN (with a warning) on an empty array.\<close>

definition np_average :: "real list \<Rightarrow> real nan_or" where
  "np_average xs = (if xs = [] then NaN else Num (sum_list xs / real (length xs)))"

text \<open>
  \<open>np.std\<close>: the population standard deviation, the square root of \<open>np_var\<close>, NaN on
  an empty array. The comparison \<open>d < np.std(xs) * c\<close> for a factor \<open>c \<ge> 0\<close> is computed
  without the square root by \<open>less_than_std\<close> (lemma \<open>less_than_std_sqrt\<close>).
\<close>

definition np_var :: "real list \<Rightarrow> real" where
  "np_var xs =
     (let m = sum_list xs / real (length xs)
      in sum_list (map (\<lambda>v. (v - m)\<^sup>2) xs) / real (length xs))"

definition np_std :: "real list \<Rightarrow> real nan_or" where
  "np_std xs = (if xs = [] then NaN else Num (sqrt (np_var xs)))"

definition less_than_std :: "real \<Rightarrow> real list \<Rightarrow> real \<Rightarrow> bool" where
  "less_than_std d xs c = (xs \<noteq> [] \<and> (d < 0 \<or> d\<^sup>2 < c\<^sup>2 * np_var xs))"

text \<open>Comparisons with a NaN operand are False.\<close>

fun nan_less :: "real nan_or \<Rightarrow> real nan_or \<Rightarrow> bool" where
  "nan_less (Num a) (Num b) = (a < b)"
| "nan_less (Num a) PosInf = True"
| "nan_less _ _ = False"

text \<open>\<open>enumerate\<close>.\<close>

definition enumerate_py :: "'a list \<Rightarrow> (int \<times> 'a) list" where
  "enumerate_py xs = zip (map int [0..<length xs]) xs"

section \<open>Detection configuration and error annotations\<close>

text \<open>
  The detection dictionary of \<open>bAnalysis.getDefaultDetection\<close>. \<open>dvdtThreshold\<close> may be
  None or NaN (both select detection on the amplitude alone); \<open>onlyPeaksAbove_mV\<close>,
  \<open>startSeconds\<close> and \<open>stopSeconds\<close> may be None.
\<close>

record detection =
  dvdtThreshold :: "real nan_or option"
  mvThreshold :: real
  medianFilter :: int
  SavitzkyGolay_pnts :: int
  SavitzkyGolay_poly :: int
  halfHeights :: "int list"
  mdp_ms :: real
  refractory_ms :: real
  peakWindow_ms :: real
  dvdtPreWindow_ms :: real
  avgWindow_ms :: real
  dvdt_percentOfMax :: real
  halfWidthWindow_ms :: real
  doBackupSpikeVm :: bool
  spikeClipWidth_ms :: real
  onlyPeaksAbove_mV :: "real option"
  startSeconds :: "real option"
  stopSeconds :: "real option"
  cellType :: string
  sex :: string
  condition :: string
  verbose :: bool

text \<open>\<open>getDefaultDetection()\<close> with \<open>cellType=None\<close>.\<close>

definition getDefaultDetection :: detection where
  "getDefaultDetection =
     \<lparr> dvdtThreshold = Some (Num 100), mvThreshold = -20, medianFilter = 0,
       SavitzkyGolay_pnts = 5, SavitzkyGolay_poly = 2,
       halfHeights = [10, 20, 50, 80, 90], mdp_ms = 250, refractory_ms = 170,
       peakWindow_ms = 100, dvdtPreWindow_ms = 10, avgWindow_ms = 5,
       dvdt_percentOfMax = 1 / 10, halfWidthWindow_ms = 200, doBackupSpikeVm = True,
       spikeClipWidth_ms = 500, onlyPeaksAbove_mV = Some (-20),
       startSeconds = None, stopSeconds = None,
       cellType = [], sex = [], condition = [], verbose = False \<rparr>"

text \<open>
  Functions of numpy/scipy and of Python's string formatting that the source calls and
  that are not part of the repository; the model takes them as parameters.
  \<open>savgol_filter pnts poly xs\<close> is \<open>scipy.signal.savgol_filter(xs, pnts, poly,
  mode='nearest')\<close> on one sweep column, \<open>polyfit1 xs ys\<close> is \<open>np.polyfit(xs, ys, 1)\<close>
  run with warnings turned into errors, \<open>str_float\<close> is the text of a float in an
  f-string, and the two version strings are those of the \<open>sanpy\<close> package.
\<close>

datatype polyfit_result = Fit real real | FitTypeError | FitRankWarning | FitOtherError

record numlib =
  savgol_filter :: "int \<Rightarrow> int \<Rightarrow> real list \<Rightarrow> py_error + real list"
  polyfit1 :: "real list \<Rightarrow> real list \<Rightarrow> polyfit_result"
  str_float :: "real \<Rightarrow> string"
  sanpy_analysisVersion :: string
  sanpy_interfaceVersion :: string

text \<open>One error annotation, the dictionary built by \<open>_getErrorDict\<close>.\<close>

record errorDict =
  eSpike :: int
  eSeconds :: real
  eType :: string
  eDetails :: string

text \<open>\<open>round(sec, 4)\<close>.\<close>

definition round4 :: "real \<Rightarrow> real" where
  "round4 x = of_int (py_round (x * 10000)) / 10000"

definition getErrorDict :: "int \<Rightarrow> int \<Rightarrow> int \<Rightarrow> string \<Rightarrow> string \<Rightarrow> errorDict" where
  "getErrorDict pntsPerMs spikeNumber pnt type detailStr =
     \<lparr> eSpike = spikeNumber,
       eSeconds = round4 (of_int pnt / of_int pntsPerMs / 1000),
       eType = type, eDetails = detailStr \<rparr>"

section \<open>Threshold crossings and refractory collapsing\<close>

text \<open>
  The run-start computation shared by \<open>_spikeDetect_dvdt\<close> (on the filtered derivative,
  with \<open>dvdtThreshold\<close>) and \<open>_spikeDetect_vm\<close> (on the filtered amplitude, with
  \<open>mvThreshold\<close>):
  \<^verbatim>\<open>
  Is=np.where(y>threshold)[0]
  Is=np.concatenate(([0],Is))
  Ds=Is[:-1]-Is[1:]+1
  spikeTimes0 = Is[np.where(Ds)[0]+1]
  \<close>
\<close>

definition threshold_crossings :: "real \<Rightarrow> real list \<Rightarrow> int list" where
  "threshold_crossings thr y =
     (let Is = 0 # np_where (\<lambda>v. thr < v) y;
          Ds = map (\<lambda>(a, b). a - b + 1) (zip (butlast Is) (tl Is))
      in map (\<lambda>k. Is ! nat (k + 1)) (np_where (\<lambda>d. d \<noteq> 0) Ds))"

text \<open>
  \<open>_throwOutRefractory\<close>: a spike time closer than the refractory period to the last
  good one is overwritten with 0, and the times (and their errors) that are nonzero
  afterwards are kept. \<open>refractory_mark\<close> is the loop from the second time on, its
  second argument the time at index \<open>lastGood\<close>. The test is
  \<open>dPoints < self.dataPointsPerMs*refractory_ms\<close>: the difference of two sample indices
  against the product as the machine computes it, a double. The integer
  \<open>dataPointsPerMs\<close> and the difference of the indices are taken to convert to doubles
  without rounding, as every integer of magnitude up to \<open>2^53\<close> does.
\<close>

fun refractory_mark :: "double \<Rightarrow> int \<Rightarrow> int list \<Rightarrow> int list" where
  "refractory_mark minGap lastGood [] = []"
| "refractory_mark minGap lastGood (t # ts) =
     (if int_less_double (t - lastGood) minGap then 0 # refractory_mark minGap lastGood ts
      else t # refractory_mark minGap t ts)"

definition refractory_marked :: "int \<Rightarrow> real \<Rightarrow> int list \<Rightarrow> int list" where
  "refractory_marked pntsPerMs refractory spikeTimes0 =
     (case spikeTimes0 of [] \<Rightarrow> []
      | t # ts \<Rightarrow> t # refractory_mark (double_mul (of_int pntsPerMs) refractory) t ts)"

text \<open>\<open>[goodSpikeErrors[idx] for idx, spikeTime in enumerate(spikeTimes0) if spikeTime]\<close>\<close>

fun pick_errors :: "'e list \<Rightarrow> (int \<times> int) list \<Rightarrow> py_error + 'e list" where
  "pick_errors errs [] = Inr []"
| "pick_errors errs ((idx, spikeTime) # rest) =
     (if spikeTime \<noteq> 0
      then ebind (py_index errs idx) (\<lambda>e. ebind (pick_errors errs rest) (\<lambda>es. Inr (e # es)))
      else pick_errors errs rest)"

definition throwOutRefractory ::
  "int \<Rightarrow> int list \<Rightarrow> 'e list option \<Rightarrow> real \<Rightarrow> py_error + (int list \<times> 'e list option)" where
  "throwOutRefractory pntsPerMs spikeTimes0 goodSpikeErrors refractory =
     (let marked = refractory_marked pntsPerMs refractory spikeTimes0;
          kept = filter (\<lambda>spikeTime. spikeTime \<noteq> 0) marked
      in case goodSpikeErrors of
           None \<Rightarrow> Inr (kept, None)
         | Some errs \<Rightarrow>
             ebind (pick_errors errs (enumerate_py marked)) (\<lambda>es. Inr (kept, Some es)))"

section \<open>Detection on the derivative: \<open>_spikeDetect_dvdt\<close>\<close>

text \<open>
  The peak gate: a crossing is kept when the raw amplitude within \<open>peakWindow_pnts\<close>
  after it exceeds \<open>mvThreshold\<close>. \<open>np.max\<close> of an empty window raises.
\<close>

fun peak_gate :: "real \<Rightarrow> int \<Rightarrow> real list \<Rightarrow> int list \<Rightarrow> py_error + int list" where
  "peak_gate mv peakWindow_pnts sweepY [] = Inr []"
| "peak_gate mv peakWindow_pnts sweepY (spikeTime # rest) =
     ebind (np_max (py_slice sweepY spikeTime (spikeTime + peakWindow_pnts))) (\<lambda>peakVal.
     ebind (peak_gate mv peakWindow_pnts sweepY rest) (\<lambda>good.
       Inr (if mv < peakVal then spikeTime # good else good)))"

text \<open>
  The body of the loop that backs each crossing up to a fraction of the maximal
  derivative. The \<open>try\<close> block raises when the window after the crossing is empty
  (\<open>np.argmax\<close>) or the peak index is out of range; the \<open>except\<close> branch then appends
  the crossing to the times and nothing to the errors.
\<close>

definition dvdt_errStr :: "numlib \<Rightarrow> detection \<Rightarrow> real \<Rightarrow> string" where
  "dvdt_errStr L dDict peakVal =
     ''dvdtPercent error searching for dvdt_percentOfMax: ''
       @ str_float L (dvdt_percentOfMax dDict) @ '' peak dV/dt is '' @ str_float L peakVal"

definition dvdt_backup_one ::
  "numlib \<Rightarrow> int \<Rightarrow> detection \<Rightarrow> real list \<Rightarrow> int \<Rightarrow> int \<times> int
     \<Rightarrow> int list \<times> errorDict option list \<Rightarrow> int list \<times> errorDict option list" where
  "dvdt_backup_one L pntsPerMs dDict filteredDeriv window_pnts ispike acc =
     (let i = fst ispike; spikeTime = snd ispike;
          spikeTimes1 = fst acc; spikeErrorList1 = snd acc;
          preDerivClip = py_slice filteredDeriv (spikeTime - window_pnts) spikeTime;
          postDerivClip = py_slice filteredDeriv spikeTime (spikeTime + window_pnts)
      in case ebind (np_argmax postDerivClip)
                (\<lambda>peakPnt. py_index filteredDeriv (peakPnt + spikeTime)) of
           Inl e \<Rightarrow> (spikeTimes1 @ [spikeTime], spikeErrorList1)
         | Inr peakVal \<Rightarrow>
             (let percentMaxVal = peakVal * dvdt_percentOfMax dDict;
                  tmpWhere = np_where (\<lambda>v. v < percentMaxVal) (rev preDerivClip)
              in case tmpWhere of
                   threshPnt2 # _ \<Rightarrow>
                     (spikeTimes1 @ [spikeTime - threshPnt2 - 1], spikeErrorList1 @ [None])
                 | [] \<Rightarrow>
                     (spikeTimes1 @ [spikeTime],
                      spikeErrorList1 @
                        [Some (getErrorDict pntsPerMs i spikeTime ''dvdtPercent''
                                 (dvdt_errStr L dDict peakVal))])))"

definition dvdt_backup ::
  "numlib \<Rightarrow> int \<Rightarrow> detection \<Rightarrow> real list \<Rightarrow> int list
     \<Rightarrow> int list \<times> errorDict option list" where
  "dvdt_backup L pntsPerMs dDict filteredDeriv spikeTimes0 =
     (let window_pnts = py_round (dvdtPreWindow_ms dDict * of_int pntsPerMs)
      in fold (dvdt_backup_one L pntsPerMs dDict filteredDeriv window_pnts)
           (enumerate_py spikeTimes0) ([], []))"

text \<open>
  \<open>_spikeDetect_dvdt\<close> on one sweep: crossings of the derivative, peak gate on the raw
  amplitude, refractory collapsing, backup. A threshold that is None cannot be compared
  (TypeError); a threshold that is NaN or infinite is exceeded nowhere.
\<close>

definition dvdt_crossings :: "detection \<Rightarrow> real list \<Rightarrow> py_error + int list" where
  "dvdt_crossings dDict filteredDeriv =
     (case dvdtThreshold dDict of
        None \<Rightarrow> Inl TypeError
      | Some NaN \<Rightarrow> Inr []
      | Some PosInf \<Rightarrow> Inr []
      | Some (Num thr) \<Rightarrow> Inr (threshold_crossings thr filteredDeriv))"

definition spikeDetect_dvdt ::
  "numlib \<Rightarrow> int \<Rightarrow> detection \<Rightarrow> real list \<Rightarrow> real list
     \<Rightarrow> py_error + (int list \<times> errorDict option list)" where
  "spikeDetect_dvdt L pntsPerMs dDict filteredDeriv sweepY =
     ebind (dvdt_crossings dDict filteredDeriv) (\<lambda>spikeTimes0.
     ebind (peak_gate (mvThreshold dDict)
              (py_round (of_int pntsPerMs * peakWindow_ms dDict)) sweepY spikeTimes0)
       (\<lambda>goodSpikeTimes.
     ebind (throwOutRefractory pntsPerMs goodSpikeTimes
              (None :: errorDict option list option) (refractory_ms dDict))
       (\<lambda>collapsed.
         Inr (dvdt_backup L pntsPerMs dDict filteredDeriv (fst collapsed)))))"

section \<open>Detection on the amplitude: \<open>_spikeDetect_vm\<close> and \<open>_backupSpikeVm\<close>\<close>

text \<open>\<open>ms2Pnt_\<close>, \<open>pnt2Ms_\<close> and \<open>pnt2Sec_\<close> (for a point that is not None).\<close>

definition ms2Pnt :: "int \<Rightarrow> real \<Rightarrow> int" where
  "ms2Pnt pntsPerMs ms = py_int (ms * of_int pntsPerMs)"

definition pnt2Ms :: "int \<Rightarrow> int \<Rightarrow> real" where
  "pnt2Ms pntsPerMs pnt = of_int pnt / of_int pntsPerMs"

definition pnt2Sec :: "int \<Rightarrow> int \<Rightarrow> real" where
  "pnt2Sec pntsPerMs pnt = of_int pnt / of_int pntsPerMs / 1000"

text \<open>
  The loop of \<open>_spikeDetect_vm\<close> that keeps the crossings on an upward deflection (the
  mean of the 10 raw samples after the crossing exceeds the mean of the 10 before it)
  and at least \<open>minISI_pnts\<close> after the last one kept. Its third argument is
  \<open>tmpLastGoodSpike_pnts\<close>.
\<close>

fun upward_gate ::
  "int \<Rightarrow> real list \<Rightarrow> int option \<Rightarrow> (int \<times> int) list \<Rightarrow> 'e list
     \<Rightarrow> py_error + (int list \<times> 'e list)" where
  "upward_gate minISI_pnts sweepY lastGood [] spikeErrorList = Inr ([], [])"
| "upward_gate minISI_pnts sweepY lastGood ((tmpIdx, spikeTime) # rest) spikeErrorList =
     (let prePntUp = 10;
          preAvg = np_average (py_slice sweepY (spikeTime - prePntUp) spikeTime);
          postAvg = np_average (py_slice sweepY (spikeTime + 1) (spikeTime + prePntUp + 1))
      in if nan_less preAvg postAvg
         then (case lastGood of
                 Some lastPnt \<Rightarrow>
                   if spikeTime - lastPnt < minISI_pnts
                   then upward_gate minISI_pnts sweepY lastGood rest spikeErrorList
                   else ebind (py_index spikeErrorList tmpIdx) (\<lambda>e.
                        ebind (upward_gate minISI_pnts sweepY (Some spikeTime) rest spikeErrorList)
                          (\<lambda>r. Inr (spikeTime # fst r, e # snd r)))
               | None \<Rightarrow>
                   ebind (py_index spikeErrorList tmpIdx) (\<lambda>e.
                   ebind (upward_gate minISI_pnts sweepY (Some spikeTime) rest spikeErrorList)
                     (\<lambda>r. Inr (spikeTime # fst r, e # snd r))))
         else upward_gate minISI_pnts sweepY lastGood rest spikeErrorList)"

definition spikeDetect_vm ::
  "int \<Rightarrow> detection \<Rightarrow> real list \<Rightarrow> real list
     \<Rightarrow> py_error + (int list \<times> errorDict option list)" where
  "spikeDetect_vm pntsPerMs dDict filteredVm sweepY =
     (let spikeTimes0 = threshold_crossings (mvThreshold dDict) filteredVm;
          spikeErrorList = replicate (length spikeTimes0) (None :: errorDict option);
          minISI_pnts = ms2Pnt pntsPerMs 75
      in ebind (upward_gate minISI_pnts sweepY None (enumerate_py spikeTimes0) spikeErrorList)
           (\<lambda>good.
         ebind (throwOutRefractory pntsPerMs (fst good) (Some (snd good)) (refractory_ms dDict))
           (\<lambda>collapsed.
             case snd collapsed of
               Some errs \<Rightarrow> Inr (fst collapsed, errs)
             | None \<Rightarrow> Inr (fst collapsed, []))))"

text \<open>
  \<open>scipy.signal.medfilt\<close> / \<open>medfilt2d\<close> with kernel \<open>[k, 1]\<close> on one sweep column, for
  an odd \<open>k\<close>: the median of the \<open>k\<close> samples around each point, the signal padded with
  zeros at both ends.
\<close>

definition medfilt :: "int \<Rightarrow> real list \<Rightarrow> real list" where
  "medfilt k xs =
     (let n = int (length xs); h = k div 2
      in map (\<lambda>i. sort (map (\<lambda>j. if 0 \<le> j \<and> j < n then xs ! nat j else 0)
                           [i - h..i + h]) ! nat h)
           [0..n - 1])"

text \<open>
  The \<open>while not foundRealThresh\<close> loop of \<open>_backupSpikeVm\<close> for one spike. The bin
  before the current one is compared with the current mean; the walk stops when the
  means differ by less than 0.7 standard deviations of that bin (\<open>meanDiff < nextSD *
  sdMult\<close>, False when a mean is NaN) or after \<open>maxNumPntsToBackup = 20\<close>
  steps. The counter starts at 0 and grows by one, so it meets 20; from a counter beyond
  20 the source would not leave the loop, which is the result None.
\<close>

function backup_walk ::
  "real list \<Rightarrow> int \<Rightarrow> int \<Rightarrow> int \<Rightarrow> real nan_or \<Rightarrow> int \<Rightarrow> nat \<Rightarrow> int option" where
  "backup_walk myVm bin_pnts half_bin_pnts spikeTimePnts thisMean atBinPnt backupNumPnts =
     (let maxNumPntsToBackup = 20;
          nextStart = atBinPnt - 1 - bin_pnts - half_bin_pnts;
          nextStop = atBinPnt - 1 - bin_pnts + half_bin_pnts;
          nextWin = py_slice myVm nextStart nextStop;
          nextMean = np_average nextWin;
          sdMult = 7 / 10;
          found = (case (thisMean, nextMean) of
                     (Num m, Num m') \<Rightarrow> less_than_std (m - m') nextWin sdMult
                   | _ \<Rightarrow> False)
      in if found \<or> backupNumPnts = maxNumPntsToBackup
         then (let moveForwardPnts = 4;
                   backupNumPnts' = int backupNumPnts - 1;
                   realBackupPnts = (if backupNumPnts' < moveForwardPnts then backupNumPnts'
                                     else backupNumPnts' - moveForwardPnts)
               in Some (spikeTimePnts - realBackupPnts * bin_pnts))
         else if maxNumPntsToBackup < backupNumPnts then None
         else backup_walk myVm bin_pnts half_bin_pnts spikeTimePnts nextMean
                (atBinPnt - bin_pnts) (Suc backupNumPnts))"
  by pat_completeness auto
termination
  by (relation "measure (\<lambda>(myVm, bin_pnts, half_bin_pnts, spikeTimePnts, thisMean, atBinPnt,
                           backupNumPnts). 20 - backupNumPnts)") auto

text \<open>
  \<open>_backupSpikeVm\<close>: the raw sweep is median filtered with a fixed width of 5 (the
  argument \<open>medianFilter\<close> is overwritten), each spike time is walked back. An entry
  for which the walk gave no point would stay \<open>np.nan\<close>.
\<close>

definition backupSpikeVm :: "int \<Rightarrow> real list \<Rightarrow> int list \<Rightarrow> int nan_or list" where
  "backupSpikeVm pntsPerMs sweepY spikeTimes =
     (let myVm = medfilt 5 sweepY;
          bin_ms = 1;
          bin_pnts = bin_ms * pntsPerMs;
          half_bin_pnts = bin_pnts div 2
      in map (\<lambda>spikeTimePnts.
                case backup_walk myVm bin_pnts half_bin_pnts spikeTimePnts
                       (np_average (py_slice myVm (spikeTimePnts - half_bin_pnts)
                                      (spikeTimePnts + half_bin_pnts)))
                       spikeTimePnts 0 of
                  Some realPnt \<Rightarrow> Num realPnt
                | None \<Rightarrow> NaN)
           spikeTimes)"

section \<open>Spike records and the recording\<close>

text \<open>One entry of a spike's \<open>widths\<close> list.\<close>

record widthDict =
  halfHeight :: int
  risingPnt :: "int option"
  risingVal :: "real nan_or"
  fallingPnt :: "int option"
  fallingVal :: "real nan_or"
  widthPnts :: "int option"
  widthMs :: "real nan_or"

text \<open>
  One spike, the \<open>OrderedDict\<close> built by \<open>spikeDetect__\<close>, its fields in the order of
  insertion. The keys \<open>include\<close> and \<open>file\<close> are the fields \<open>includeFlag\<close> and
  \<open>fileName\<close>; the keys \<open>widths_<halfHeight>\<close> are the association list \<open>widths_flat\<close>.
  A field of option type is None in Python when it is None here.
\<close>

record spike =
  includeFlag :: int
  analysisVersion :: string
  interfaceVersion :: string
  fileName :: "string option"
  spike_detectionType :: string
  spike_cellType :: string
  spike_sex :: string
  spike_condition :: string
  sweep :: nat
  sweepSpikeNumber :: int
  spikeNumber :: int
  errors :: "errorDict list"
  spike_dvdtThreshold :: "real nan_or option"
  spike_mvThreshold :: real
  spike_medianFilter :: int
  spike_halfHeights :: "int list"
  dacCommand :: real
  thresholdPnt :: int
  thresholdVal :: real
  thresholdVal_dvdt :: real
  thresholdSec :: real
  peakPnt :: int
  peakVal :: real
  peakSec :: real
  peakHeight :: real
  preMinPnt :: "int option"
  preMinVal :: "real nan_or"
  preLinearFitPnt0 :: "int option"
  preLinearFitPnt1 :: "int option"
  earlyDiastolicDuration_ms :: "real nan_or"
  preLinearFitVal0 :: "real nan_or"
  preLinearFitVal1 :: "real nan_or"
  earlyDiastolicDurationRate :: "real nan_or"
  lateDiastolicDuration :: "real nan_or"
  preSpike_dvdt_max_pnt :: "int option"
  preSpike_dvdt_max_val :: "real nan_or"
  preSpike_dvdt_max_val2 :: "real nan_or"
  postSpike_dvdt_min_pnt :: "int option"
  postSpike_dvdt_min_val :: "real nan_or"
  postSpike_dvdt_min_val2 :: "real nan_or"
  isi_pnts :: "int nan_or"
  isi_ms :: "real nan_or"
  spikeFreq_hz :: "real nan_or"
  cycleLength_pnts :: "int nan_or"
  cycleLength_ms :: "real nan_or"
  diastolicDuration_ms :: "real nan_or"
  widths :: "widthDict list"
  widths_flat :: "(string \<times> real nan_or) list"

text \<open>
  The \<open>bAnalysis\<close> object. A two-dimensional numpy array (samples by sweeps) is the list
  of its columns, one per sweep; \<open>_filteredVm\<close> and \<open>_filteredDeriv\<close> are None until
  they are built. \<open>dataPointsPerMs\<close> is the integer that pyabf gives (the only loader
  that builds the two-dimensional arrays the detection indexes); the model's divisions
  by it are those of the source when it is not 0. The data frame \<open>dfError\<close> is the list
  of its rows; \<open>dfReportForScatter\<close> is built by \<open>sanpy.bExport\<close>, which is outside
  this model.
\<close>

datatype recording_mode = IClamp | VClamp | UnknownMode

record bAnalysis =
  dataPointsPerMs :: int
  sweepList :: "nat list"
  sweepX :: "real list list"
  sweepY :: "real list list"
  sweepC :: "real list list"
  recordingMode :: recording_mode
  path :: "string option"
  detectionDict :: "detection option"
  dateAnalyzed :: "string option"
  detectionType :: "string option"
  filteredVm :: "real list list option"
  filteredDeriv :: "real list list option"
  spikeDict :: "spike list"
  spikeClips :: "real list list option"
  spikeClips_x :: "real list option"
  spikeClips_x2 :: "real list list option"
  dfError :: "errorDict list option"
  detectionDirty :: bool

text \<open>\<open>self.sweepY(sweepNumber)\<close> and its siblings: column \<open>sweepNumber\<close> of the array.\<close>

definition column :: "'a list list \<Rightarrow> nat \<Rightarrow> py_error + 'a list" where
  "column cols sweepNumber =
     (if sweepNumber < length cols then Inr (cols ! sweepNumber) else Inl IndexError)"

definition column_opt :: "'a list list option \<Rightarrow> nat \<Rightarrow> py_error + 'a list" where
  "column_opt arr sweepNumber =
     (case arr of None \<Rightarrow> Inl TypeError | Some cols \<Rightarrow> column cols sweepNumber)"

text \<open>\<open>getFileName\<close>: the last component of the path.\<close>

definition getFileName :: "bAnalysis \<Rightarrow> string option" where
  "getFileName ba =
     map_option (\<lambda>p. rev (takeWhile (\<lambda>c. c \<noteq> CHR ''/'') (rev p))) (path ba)"

text \<open>\<open>str\<close> of an integer, of None or an integer, of a float that may be NaN.\<close>

fun str_nat :: "nat \<Rightarrow> string" where
  "str_nat n =
     (if n < 10 then [''0123456789'' ! n]
      else str_nat (n div 10) @ [''0123456789'' ! (n mod 10)])"

definition str_int :: "int \<Rightarrow> string" where
  "str_int i = (if i < 0 then CHR ''-'' # str_nat (nat (- i)) else str_nat (nat i))"

definition str_int_opt :: "int option \<Rightarrow> string" where
  "str_int_opt v = (case v of None \<Rightarrow> ''None'' | Some i \<Rightarrow> str_int i)"

definition str_nan :: "numlib \<Rightarrow> real nan_or \<Rightarrow> string" where
  "str_nan L v = (case v of NaN \<Rightarrow> ''nan'' | PosInf \<Rightarrow> ''inf'' | Num x \<Rightarrow> str_float L x)"

text \<open>Assignment \<open>d[k] = v\<close> in an ordered dictionary.\<close>

fun dict_set :: "'k \<Rightarrow> 'v \<Rightarrow> ('k \<times> 'v) list \<Rightarrow> ('k \<times> 'v) list" where
  "dict_set k v [] = [(k, v)]"
| "dict_set k v ((k', v') # kvs) =
     (if k = k' then (k, v) # kvs else (k', v') # dict_set k v kvs)"

section \<open>Filtering: \<open>rebuildFiltered\<close>\<close>

text \<open>The filter selection of \<open>_getDerivative\<close>, on one column.\<close>

definition filter_column :: "numlib \<Rightarrow> detection \<Rightarrow> real list \<Rightarrow> py_error + real list" where
  "filter_column L dDict col =
     (if 0 < medianFilter dDict
      then Inr (medfilt (if medianFilter dDict mod 2 = 0 then medianFilter dDict + 1
                         else medianFilter dDict) col)
      else if 0 < SavitzkyGolay_pnts dDict
      then savgol_filter L (SavitzkyGolay_pnts dDict) (SavitzkyGolay_poly dDict) col
      else Inr col)"

text \<open>A fallible function on every element of a list, left to right.\<close>

fun emap :: "('a \<Rightarrow> py_error + 'b) \<Rightarrow> 'a list \<Rightarrow> py_error + 'b list" where
  "emap f [] = Inr []"
| "emap f (x # xs) = ebind (f x) (\<lambda>y. ebind (emap f xs) (\<lambda>ys. Inr (y # ys)))"

text \<open>\<open>np.diff\<close> along the time axis.\<close>

definition np_diff :: "real list \<Rightarrow> real list" where
  "np_diff xs = map (\<lambda>(a, b). b - a) (zip xs (tl xs))"

text \<open>
  \<open>_getDerivative(dDict=None)\<close>: the filtered amplitude, and its first difference,
  filtered again, scaled by \<open>dataPointsPerMs\<close> and with a row of \<open>numSweeps\<close> zeros
  stacked on top (\<open>np.vstack\<close> raises when the widths differ). An absent \<open>dDict\<close> is
  replaced by the default detection dictionary.
\<close>

definition getDerivative :: "numlib \<Rightarrow> bAnalysis \<Rightarrow> detection option \<Rightarrow> py_error + bAnalysis" where
  "getDerivative L ba dDict0 =
     (let dDict = (case dDict0 of None \<Rightarrow> getDefaultDetection | Some d \<Rightarrow> d)
      in ebind (emap (filter_column L dDict) (sweepY ba)) (\<lambda>fVm.
         ebind (emap (\<lambda>col. filter_column L dDict (np_diff col)) fVm) (\<lambda>fDeriv.
           if length (sweepList ba) \<noteq> length fDeriv then Inl ValueError
           else Inr (ba\<lparr> filteredVm := Some fVm,
                          filteredDeriv :=
                            Some (map (\<lambda>col. 0 # map (\<lambda>v. v * of_int (dataPointsPerMs ba)) col)
                                    fDeriv) \<rparr>))))"

text \<open>
  \<open>rebuildFiltered\<close> calls \<open>_getDerivative()\<close> without an argument for a current-clamp
  recording. For a voltage-clamp recording \<open>_getBaselineSubtract\<close> hands the bound
  methods \<open>self.sweepY\<close> and \<open>self.filteredVm\<close> to scipy and numpy in place of arrays
  (its own banner says that it is broken), which raises. For any other mode it only
  logs a warning.
\<close>

definition rebuildFiltered :: "numlib \<Rightarrow> bAnalysis \<Rightarrow> py_error + bAnalysis" where
  "rebuildFiltered L ba =
     (case recordingMode ba of
        IClamp \<Rightarrow> getDerivative L ba None
      | VClamp \<Rightarrow> Inl TypeError
      | UnknownMode \<Rightarrow> Inr ba)"

text \<open>
  \<open>_getFilteredRecording(dDict)\<close> as it is written, had it been given the sweep array:
  the filtered amplitude for the filter parameters of \<open>dDict\<close>.
\<close>

definition getFilteredRecording ::
  "numlib \<Rightarrow> detection \<Rightarrow> real list list \<Rightarrow> py_error + real list list" where
  "getFilteredRecording L dDict cols = emap (filter_column L dDict) cols"

section \<open>Feature extraction: \<open>spikeDetect__\<close>\<close>

text \<open>A fallible step for every element of a list, threading a state.\<close>

fun efold :: "('a \<Rightarrow> 's \<Rightarrow> py_error + 's) \<Rightarrow> 'a list \<Rightarrow> 's \<Rightarrow> py_error + 's" where
  "efold f [] s = Inr s"
| "efold f (x # xs) s = ebind (f x s) (efold f xs)"

definition default_width :: "int \<Rightarrow> widthDict" where
  "default_width hh =
     \<lparr> halfHeight = hh, risingPnt = None, risingVal = NaN, fallingPnt = None,
       fallingVal = NaN, widthPnts = None, widthMs = NaN \<rparr>"

definition add_error :: "errorDict \<Rightarrow> spike \<Rightarrow> spike" where
  "add_error e s = s\<lparr> errors := errors s @ [e] \<rparr>"

text \<open>An update of the dictionary \<open>self.spikeDict[k]\<close>, for an index in range.\<close>

definition update_spike :: "nat \<Rightarrow> (spike \<Rightarrow> spike) \<Rightarrow> spike list \<Rightarrow> spike list" where
  "update_spike k f sd = sd[k := f (sd ! k)]"

text \<open>\<open>round(x, 2)\<close>.\<close>

definition round2 :: "real \<Rightarrow> real" where
  "round2 x = of_int (py_round (x * 100)) / 100"

text \<open>
  The dictionary of one spike as it is after the defaults are written: the fields up
  to \<open>peakHeight\<close> are computed, every later field has its default.
\<close>

definition new_spike ::
  "numlib \<Rightarrow> int \<Rightarrow> detection \<Rightarrow> string \<Rightarrow> string option \<Rightarrow> nat \<Rightarrow> int \<Rightarrow> int
     \<Rightarrow> errorDict option \<Rightarrow> real \<Rightarrow> int \<Rightarrow> real \<Rightarrow> real \<Rightarrow> int \<Rightarrow> real \<Rightarrow> spike" where
  "new_spike L pntsPerMs dDict detType fname sweepNumber i numSpikes tmpError dac spikeTime
       thrVal thrValDvdt pkPnt pkVal =
     \<lparr> includeFlag = 1,
       analysisVersion = sanpy_analysisVersion L,
       interfaceVersion = sanpy_interfaceVersion L,
       fileName = fname,
       spike_detectionType = detType,
       spike_cellType = cellType dDict,
       spike_sex = sex dDict,
       spike_condition = condition dDict,
       sweep = sweepNumber,
       sweepSpikeNumber = i,
       spikeNumber = numSpikes,
       errors = (case tmpError of None \<Rightarrow> [] | Some e \<Rightarrow> [e]),
       spike_dvdtThreshold = dvdtThreshold dDict,
       spike_mvThreshold = mvThreshold dDict,
       spike_medianFilter = medianFilter dDict,
       spike_halfHeights = halfHeights dDict,
       dacCommand = dac,
       thresholdPnt = spikeTime,
       thresholdVal = thrVal,
       thresholdVal_dvdt = thrValDvdt,
       thresholdSec = of_int spikeTime / of_int pntsPerMs / 1000,
       peakPnt = pkPnt,
       peakVal = pkVal,
       peakSec = of_int pkPnt / of_int pntsPerMs / 1000,
       peakHeight = pkVal - thrVal,
       preMinPnt = None,
       preMinVal = NaN,
       preLinearFitPnt0 = None,
       preLinearFitPnt1 = None,
       earlyDiastolicDuration_ms = NaN,
       preLinearFitVal0 = NaN,
       preLinearFitVal1 = NaN,
       earlyDiastolicDurationRate = NaN,
       lateDiastolicDuration = NaN,
       preSpike_dvdt_max_pnt = None,
       preSpike_dvdt_max_val = NaN,
       preSpike_dvdt_max_val2 = NaN,
       postSpike_dvdt_min_pnt = None,
       postSpike_dvdt_min_val = NaN,
       postSpike_dvdt_min_val2 = NaN,
       isi_pnts = NaN,
       isi_ms = NaN,
       spikeFreq_hz = NaN,
       cycleLength_pnts = NaN,
       cycleLength_ms = NaN,
       diastolicDuration_ms = NaN,
       widths = map default_width (halfHeights dDict),
       widths_flat = fold (\<lambda>hh. dict_set (''widths_'' @ str_int hh) NaN)
                       (halfHeights dDict) [] \<rparr>"

text \<open>
  The pre-spike minimum of a spike that is not the first of its sweep. \<open>np.argmin\<close> of
  an empty window raises and is not caught; a failed backward search is caught and
  recorded as a \<open>preMin\<close> error. The result carries the local variable \<open>preMinPnt\<close>.
\<close>

definition preMin_search ::
  "numlib \<Rightarrow> int \<Rightarrow> detection \<Rightarrow> real list \<Rightarrow> int \<Rightarrow> int \<Rightarrow> int \<Rightarrow> nat \<Rightarrow> spike list
     \<Rightarrow> py_error + (int \<times> spike list)" where
  "preMin_search L pntsPerMs dDict fVm avgWindow_pnts i spikeTime iIdx sd =
     (let mdp_pnts = py_int (mdp_ms dDict * of_int pntsPerMs);
          startPnt = (if spikeTime - mdp_pnts < 0 then 0 else spikeTime - mdp_pnts)
      in ebind (np_argmin (py_slice fVm startPnt spikeTime)) (\<lambda>k.
           let minPnt = k + startPnt;
               minVal = np_average (py_slice fVm (minPnt - avgWindow_pnts)
                                      (minPnt + avgWindow_pnts))
           in case np_where_first (\<lambda>v. nan_less (Num v) minVal)
                     (rev (py_slice fVm minPnt spikeTime)) of
                Inr preMinPnt2 \<Rightarrow>
                  Inr (spikeTime - preMinPnt2,
                       update_spike iIdx
                         (\<lambda>s. s\<lparr> preMinPnt := Some (spikeTime - preMinPnt2),
                                  preMinVal := minVal \<rparr>) sd)
              | Inl e \<Rightarrow>
                  Inr (minPnt,
                       update_spike iIdx
                         (add_error (getErrorDict pntsPerMs i spikeTime ''preMin''
                                       (''searching for preMinVal:'' @ str_nan L minVal))) sd)))"

text \<open>The linear fit on 10% to 50% of the time from \<open>preMinPnt\<close> to the spike.\<close>

definition linear_fit ::
  "numlib \<Rightarrow> int \<Rightarrow> real list \<Rightarrow> real list \<Rightarrow> int \<Rightarrow> int \<Rightarrow> int \<Rightarrow> nat \<Rightarrow> spike list
     \<Rightarrow> py_error + spike list" where
  "linear_fit L pntsPerMs colX fVm i spikeTime minPnt iIdx sd =
     (let timeInterval_pnts = spikeTime - minPnt;
          fitPnt0 = minPnt + \<lfloor>of_int timeInterval_pnts * (1 / 10 :: real)\<rfloor>;
          fitPnt1 = minPnt + \<lfloor>of_int timeInterval_pnts * (1 / 2 :: real)\<rfloor>
      in ebind (py_index fVm fitPnt0) (\<lambda>fitVal0.
         ebind (py_index fVm fitPnt1) (\<lambda>fitVal1.
           let sd1 = update_spike iIdx
                       (\<lambda>s. s\<lparr> preLinearFitPnt0 := Some fitPnt0,
                                preLinearFitPnt1 := Some fitPnt1,
                                earlyDiastolicDuration_ms :=
                                  Num (pnt2Ms pntsPerMs (fitPnt1 - fitPnt0)),
                                preLinearFitVal0 := Num fitVal0,
                                preLinearFitVal1 := Num fitVal1 \<rparr>) sd
           in Inr (case polyfit1 L (py_slice colX fitPnt0 fitPnt1)
                          (py_slice fVm fitPnt0 fitPnt1) of
                     Fit mLinear bLinear \<Rightarrow>
                       update_spike iIdx
                         (\<lambda>s. s\<lparr> earlyDiastolicDurationRate := Num mLinear \<rparr>) sd1
                   | FitTypeError \<Rightarrow>
                       update_spike iIdx
                         (\<lambda>s. add_error
                                 (getErrorDict pntsPerMs i spikeTime ''fitEDD''
                                    ''earlyDiastolicDurationRate fit'')
                                 (s\<lparr> earlyDiastolicDurationRate := NaN \<rparr>)) sd1
                   | FitRankWarning \<Rightarrow>
                       update_spike iIdx
                         (\<lambda>s. add_error
                                 (getErrorDict pntsPerMs i spikeTime ''fitEDD2''
                                    ''earlyDiastolicDurationRate fit - RankWarning'')
                                 (s\<lparr> earlyDiastolicDurationRate := NaN \<rparr>)) sd1
                   | FitOtherError \<Rightarrow> sd1))))"

text \<open>The maximum of the derivative between the spike and its peak.\<close>

definition preSpike_dvdt ::
  "int \<Rightarrow> real list \<Rightarrow> real list \<Rightarrow> int \<Rightarrow> int \<Rightarrow> int \<Rightarrow> nat \<Rightarrow> spike list
     \<Rightarrow> py_error + spike list" where
  "preSpike_dvdt pntsPerMs fVm fDeriv i spikeTime pkPnt iIdx sd =
     (case np_argmax (py_slice fDeriv spikeTime (pkPnt + 1)) of
        Inl e \<Rightarrow>
          Inr (update_spike iIdx
                 (add_error (getErrorDict pntsPerMs i spikeTime ''preSpikeDvDt''
                               ''searching for preSpike_dvdt_max_pnt:'')) sd)
      | Inr k \<Rightarrow>
          ebind (py_index fVm (k + spikeTime)) (\<lambda>v.
          ebind (py_index fDeriv (k + spikeTime)) (\<lambda>v2.
            Inr (update_spike iIdx
                   (\<lambda>s. s\<lparr> preSpike_dvdt_max_pnt := Some (k + spikeTime),
                            preSpike_dvdt_max_val := Num v,
                            preSpike_dvdt_max_val2 := Num v2 \<rparr>) sd))))"

text \<open>The minimum of the derivative in the 10 ms after the peak.\<close>

definition postSpike_dvdt ::
  "int \<Rightarrow> real list \<Rightarrow> real list \<Rightarrow> int \<Rightarrow> nat \<Rightarrow> spike list \<Rightarrow> py_error + spike list" where
  "postSpike_dvdt pntsPerMs fVm fDeriv pkPnt iIdx sd =
     (let postSpike_ms = 10;
          postSpike_pnts = py_round (of_int pntsPerMs * postSpike_ms)
      in ebind (np_argmin (py_slice fDeriv pkPnt (pkPnt + postSpike_pnts))) (\<lambda>k.
         ebind (py_index fVm (k + pkPnt)) (\<lambda>v.
         ebind (py_index fDeriv (k + pkPnt)) (\<lambda>v2.
           Inr (update_spike iIdx
                  (\<lambda>s. s\<lparr> postSpike_dvdt_min_pnt := Some (k + pkPnt),
                           postSpike_dvdt_min_val := Num v,
                           postSpike_dvdt_min_val2 := Num v2 \<rparr>) sd)))))"

text \<open>
  Inter-spike interval, instantaneous frequency and cycle length of a spike that is
  not the first of its sweep, from the previous entry of \<open>self.spikeDict\<close>.
\<close>

definition isi_block :: "int \<Rightarrow> int \<Rightarrow> int \<Rightarrow> nat \<Rightarrow> spike list \<Rightarrow> spike list" where
  "isi_block pntsPerMs i spikeTime iIdx sd =
     (let isiPnts = thresholdPnt (sd ! iIdx) - thresholdPnt (sd ! (iIdx - 1));
          isi = pnt2Ms pntsPerMs isiPnts;
          sd1 = update_spike iIdx
                  (\<lambda>s. s\<lparr> isi_pnts := Num isiPnts, isi_ms := Num isi,
                           spikeFreq_hz := (if isi / 1000 = 0 then PosInf
                                            else Num (1 / (isi / 1000))) \<rparr>) sd;
          prevPreMinPnt = preMinPnt (sd1 ! (iIdx - 1));
          thisPreMinPnt = preMinPnt (sd1 ! iIdx)
      in case (prevPreMinPnt, thisPreMinPnt) of
           (Some prevPnt, Some thisPnt) \<Rightarrow>
             update_spike iIdx
               (\<lambda>s. s\<lparr> cycleLength_pnts := Num (thisPnt - prevPnt),
                        cycleLength_ms := Num (pnt2Ms pntsPerMs (thisPnt - prevPnt)) \<rparr>) sd1
         | _ \<Rightarrow>
             update_spike iIdx
               (add_error (getErrorDict pntsPerMs i spikeTime ''cycleLength''
                             (''previous spike preMinPnt is '' @ str_int_opt prevPreMinPnt
                                @ '' this preMinPnt:'' @ str_int_opt thisPreMinPnt))) sd1)"

text \<open>
  The \<open>try\<close> block of one half-height: the falling point is the first sample below
  \<open>thisVm\<close> in the window after the peak, the rising point the first sample above the
  falling value between the spike and the peak. The result is the new value of
  \<open>tmpErrorType\<close> and, when nothing was raised, the width dictionary and the local
  \<open>widthMs\<close>. In the dictionary \<open>risingPnt\<close> is the threshold point and \<open>widthPnts\<close> is
  \<open>widthPnts2 = fallingPnt - thresholdPnt\<close>, while \<open>widthMs\<close> is
  \<open>widthPnts / dataPointsPerMs\<close> with \<open>widthPnts = fallingPnt - risingPnt\<close>.
\<close>

definition half_width_try ::
  "int \<Rightarrow> real list \<Rightarrow> int \<Rightarrow> int \<Rightarrow> int \<Rightarrow> real \<Rightarrow> int \<Rightarrow> string option
     \<Rightarrow> string option \<times> (widthDict \<times> real nan_or) option" where
  "half_width_try pntsPerMs fVm thrPnt pkPnt hwWindowPnts thisVm hh tmpErrorType =
     (case np_where (\<lambda>v. v < thisVm) (py_slice fVm pkPnt (pkPnt + hwWindowPnts)) of
        [] \<Rightarrow> (Some ''falling point'', None)
      | kf # _ \<Rightarrow>
          (case py_index fVm (kf + pkPnt) of
             Inl e \<Rightarrow> (tmpErrorType, None)
           | Inr fallVal \<Rightarrow>
               (case np_where (\<lambda>v. fallVal < v) (py_slice fVm thrPnt pkPnt) of
                  [] \<Rightarrow> (Some ''rising point'', None)
                | kr # _ \<Rightarrow>
                    (case py_index fVm (kr + thrPnt) of
                       Inl e \<Rightarrow> (tmpErrorType, None)
                     | Inr riseVal \<Rightarrow>
                         (let fallPnt = kf + pkPnt;
                              risePnt = kr + thrPnt;
                              widthPnts1 = fallPnt - risePnt;
                              widthPnts2 = fallPnt - thrPnt
                          in (tmpErrorType,
                              Some (\<lparr> halfHeight = hh, risingPnt = Some thrPnt,
                                      risingVal = Num riseVal, fallingPnt = Some fallPnt,
                                      fallingVal = Num fallVal, widthPnts = Some widthPnts2,
                                      widthMs = Num (of_int widthPnts1 / of_int pntsPerMs) \<rparr>,
                                    Num (of_int widthPnts1 / of_int pntsPerMs))))))))"

definition width_errStr ::
  "numlib \<Rightarrow> detection \<Rightarrow> int \<Rightarrow> string option \<Rightarrow> real \<Rightarrow> real \<Rightarrow> string" where
  "width_errStr L dDict hh tmpErrorType thisVm tmpPeakSec =
     ''half width '' @ str_int hh @ '' error in ''
       @ (case tmpErrorType of None \<Rightarrow> ''None'' | Some t \<Rightarrow> t)
       @ '' with halfWidthWindow_ms:'' @ str_float L (halfWidthWindow_ms dDict)
       @ '' searching for Vm:'' @ str_float L (round2 thisVm)
       @ '' from peak sec '' @ str_float L (round2 tmpPeakSec)"

text \<open>
  The loop over the half-heights. A failed search appends its error to
  \<open>self.spikeDict[i]\<close>, indexed by the number \<open>i\<close> of the spike within its sweep; the
  widths are written to \<open>self.spikeDict[iIdx]\<close>.
\<close>

fun widths_loop ::
  "numlib \<Rightarrow> int \<Rightarrow> detection \<Rightarrow> real list \<Rightarrow> int \<Rightarrow> int \<Rightarrow> nat \<Rightarrow> real \<Rightarrow> int \<Rightarrow> real
     \<Rightarrow> int \<Rightarrow> (int \<times> int) list \<Rightarrow> string option \<Rightarrow> spike list \<Rightarrow> spike list" where
  "widths_loop L pntsPerMs dDict fVm i spikeTime iIdx thrVal pkPnt pkVal hwWindowPnts
       [] tmpErrorType sd = sd"
| "widths_loop L pntsPerMs dDict fVm i spikeTime iIdx thrVal pkPnt pkVal hwWindowPnts
       ((j, hh) # rest) tmpErrorType sd =
     (let thisVm = thrVal + (pkVal - thrVal) * (of_int hh * (1 / 100));
          r = half_width_try pntsPerMs fVm spikeTime pkPnt hwWindowPnts thisVm hh tmpErrorType;
          sd1 = (case snd r of
                   None \<Rightarrow>
                     update_spike (nat i)
                       (add_error (getErrorDict pntsPerMs i spikeTime ''spikeWidth''
                                     (width_errStr L dDict hh (fst r) thisVm
                                        (of_int pkPnt / of_int pntsPerMs / 1000)))) sd
                 | Some w \<Rightarrow> sd);
          wDict = (case snd r of None \<Rightarrow> default_width hh | Some w \<Rightarrow> fst w);
          wMs = (case snd r of None \<Rightarrow> NaN | Some w \<Rightarrow> snd w);
          sd2 = update_spike iIdx
                  (\<lambda>s. s\<lparr> widths_flat := dict_set (''widths_'' @ str_int hh) wMs (widths_flat s),
                           widths := (widths s)[nat j := wDict] \<rparr>) sd1
      in widths_loop L pntsPerMs dDict fVm i spikeTime iIdx thrVal pkPnt pkVal hwWindowPnts
           rest (fst r) sd2)"

text \<open>
  The body of the loop over the spike times of one sweep: \<open>ispike\<close> is the pair
  \<open>(i, spikeTime)\<close> of \<open>enumerate(spikeTimes)\<close>, \<open>sd\<close> is \<open>self.spikeDict\<close>.
\<close>

definition spike_one ::
  "numlib \<Rightarrow> int \<Rightarrow> detection \<Rightarrow> string \<Rightarrow> string option \<Rightarrow> nat \<Rightarrow> real list \<Rightarrow> real list
     \<Rightarrow> real list \<Rightarrow> real list \<Rightarrow> errorDict option list \<Rightarrow> int \<Rightarrow> int \<Rightarrow> int \<times> int
     \<Rightarrow> spike list \<Rightarrow> py_error + spike list" where
  "spike_one L pntsPerMs dDict detType fname sweepNumber colX fVm fDeriv colC spikeErrorList
       peakWindow_pnts avgWindow_pnts ispike sd =
     (let i = fst ispike; spikeTime = snd ispike;
          win = py_slice fVm spikeTime (spikeTime + peakWindow_pnts)
      in ebind (np_argmax win) (\<lambda>k.
         ebind (np_max win) (\<lambda>pkVal.
         ebind (py_index spikeErrorList i) (\<lambda>tmpError.
         ebind (py_index colC spikeTime) (\<lambda>dac.
         ebind (py_index fVm spikeTime) (\<lambda>thrVal.
         ebind (py_index fDeriv spikeTime) (\<lambda>thrValDvdt.
           let pkPnt = k + spikeTime;
               sd0 = sd @ [new_spike L pntsPerMs dDict detType fname sweepNumber i
                             (int (length sd)) tmpError dac spikeTime thrVal thrValDvdt
                             pkPnt pkVal];
               iIdx = length sd0 - 1
           in ebind (if i = 0 then Inr (None, sd0)
                     else ebind (preMin_search L pntsPerMs dDict fVm avgWindow_pnts i
                                   spikeTime iIdx sd0) (\<lambda>pm.
                          ebind (linear_fit L pntsPerMs colX fVm i spikeTime (fst pm) iIdx
                                   (snd pm)) (\<lambda>sd1. Inr (Some (fst pm), sd1)))) (\<lambda>pre.
              ebind (preSpike_dvdt pntsPerMs fVm fDeriv i spikeTime pkPnt iIdx (snd pre))
                (\<lambda>sd2.
              ebind (postSpike_dvdt pntsPerMs fVm fDeriv pkPnt iIdx sd2) (\<lambda>sd3.
                let sd4 = (if 0 < i
                           then (case fst pre of
                                   Some minPnt \<Rightarrow>
                                     update_spike iIdx
                                       (\<lambda>s. s\<lparr> diastolicDuration_ms :=
                                                  Num (pnt2Ms pntsPerMs (spikeTime - minPnt)) \<rparr>)
                                       sd3
                                 | None \<Rightarrow> sd3)
                           else sd3);
                    sd5 = update_spike iIdx (\<lambda>s. s\<lparr> cycleLength_ms := NaN \<rparr>) sd4;
                    sd6 = (if 0 < i then isi_block pntsPerMs i spikeTime iIdx sd5 else sd5);
                    hwWindowPnts = py_round (halfWidthWindow_ms dDict * of_int pntsPerMs)
                in Inr (widths_loop L pntsPerMs dDict fVm i spikeTime iIdx thrVal pkPnt pkVal
                          hwWindowPnts (enumerate_py (halfHeights dDict)) None
                          sd6)))))))))))"

text \<open>
  The gate on \<open>onlyPeaksAbove_mV\<close>: a spike whose peak of the filtered amplitude does
  not exceed the floor is dropped, with its error.
\<close>

fun peaks_above ::
  "real \<Rightarrow> int \<Rightarrow> real list \<Rightarrow> 'e list \<Rightarrow> (int \<times> int) list
     \<Rightarrow> py_error + (int list \<times> 'e list)" where
  "peaks_above floor_mV peakWindow_pnts fVm spikeErrorList [] = Inr ([], [])"
| "peaks_above floor_mV peakWindow_pnts fVm spikeErrorList ((i, spikeTime) # rest) =
     (let win = py_slice fVm spikeTime (spikeTime + peakWindow_pnts)
      in ebind (np_argmax win) (\<lambda>k.
         ebind (np_max win) (\<lambda>pkVal.
           if floor_mV < pkVal
           then ebind (py_index spikeErrorList i) (\<lambda>e.
                ebind (peaks_above floor_mV peakWindow_pnts fVm spikeErrorList rest)
                  (\<lambda>r. Inr (spikeTime # fst r, e # snd r)))
           else peaks_above floor_mV peakWindow_pnts fVm spikeErrorList rest)))"

text \<open>
  The two detection branches of \<open>spikeDetect__\<close> on the columns of one sweep. A time
  that \<open>_backupSpikeVm\<close> left at \<open>np.nan\<close> cannot index an array.
\<close>

definition detect_mv ::
  "bAnalysis \<Rightarrow> detection \<Rightarrow> nat \<Rightarrow> py_error + (int list \<times> errorDict option list)" where
  "detect_mv ba dDict sweepNumber =
     ebind (column_opt (filteredVm ba) sweepNumber) (\<lambda>fVm.
     ebind (column (sweepY ba) sweepNumber) (\<lambda>colY.
     ebind (spikeDetect_vm (dataPointsPerMs ba) dDict fVm colY) (\<lambda>r.
       if doBackupSpikeVm dDict
       then ebind (emap (\<lambda>t. case t of Num pnt \<Rightarrow> Inr pnt | _ \<Rightarrow> Inl TypeError)
                     (backupSpikeVm (dataPointsPerMs ba) colY (fst r)))
              (\<lambda>spikeTimes. Inr (spikeTimes, snd r))
       else Inr r)))"

definition detect_dvdt ::
  "numlib \<Rightarrow> bAnalysis \<Rightarrow> detection \<Rightarrow> nat
     \<Rightarrow> py_error + (int list \<times> errorDict option list)" where
  "detect_dvdt L ba dDict sweepNumber =
     ebind (column_opt (filteredDeriv ba) sweepNumber) (\<lambda>fDeriv.
     ebind (column (sweepY ba) sweepNumber) (\<lambda>colY.
       spikeDetect_dvdt L (dataPointsPerMs ba) dDict fDeriv colY))"

text \<open>\<open>errorReport\<close>: the errors of all spikes, one row per error.\<close>

definition errorReport :: "bAnalysis \<Rightarrow> errorDict list" where
  "errorReport ba = concat (map errors (spikeDict ba))"

text \<open>
  \<open>spikeDetect__(sweepNumber, dDict)\<close>. \<open>now\<close> is the text of \<open>datetime.datetime.now()\<close>
  read by \<open>_spikeDetect_vm\<close> or \<open>_spikeDetect_dvdt\<close>, stored in \<open>dateAnalyzed\<close>; the two
  readings of \<open>time.time()\<close> are used for logging only.
\<close>

definition spikeDetect_sweep ::
  "numlib \<Rightarrow> string \<Rightarrow> bAnalysis \<Rightarrow> nat \<Rightarrow> detection option \<Rightarrow> py_error + bAnalysis" where
  "spikeDetect_sweep L now ba0 sweepNumber dDict0 =
     (let dDict = (case dDict0 of
                     Some d \<Rightarrow> d
                   | None \<Rightarrow> (case detectionDict ba0 of
                                Some d \<Rightarrow> d
                              | None \<Rightarrow> getDefaultDetection));
          ba1 = ba0\<lparr> detectionDict := Some dDict \<rparr>
      in ebind (rebuildFiltered L ba1) (\<lambda>ba2.
         let mv = (case dvdtThreshold dDict of
                     None \<Rightarrow> True | Some NaN \<Rightarrow> True | Some v \<Rightarrow> False);
             ba3 = ba2\<lparr> dateAnalyzed := Some now,
                         detectionType := Some (if mv then ''mvThreshold'' else ''dVdtThreshold'') \<rparr>
         in ebind (if mv then detect_mv ba3 dDict sweepNumber
                   else detect_dvdt L ba3 dDict sweepNumber) (\<lambda>onsets.
            ebind (column (sweepX ba3) sweepNumber) (\<lambda>colX.
            ebind (column_opt (filteredVm ba3) sweepNumber) (\<lambda>fVm.
            ebind (column_opt (filteredDeriv ba3) sweepNumber) (\<lambda>fDeriv.
            ebind (column (sweepC ba3) sweepNumber) (\<lambda>colC.
              let peakWindow_pnts =
                    py_round (of_int (dataPointsPerMs ba3) * peakWindow_ms dDict)
              in ebind (case onlyPeaksAbove_mV dDict of
                          None \<Rightarrow> Inr onsets
                        | Some floor_mV \<Rightarrow>
                            peaks_above floor_mV peakWindow_pnts fVm (snd onsets)
                              (enumerate_py (fst onsets))) (\<lambda>gated.
                 let avgWindow_pnts =
                       \<lfloor>avgWindow_ms dDict * of_int (dataPointsPerMs ba3) / 2\<rfloor>
                 in ebind (efold (spike_one L (dataPointsPerMs ba3) dDict
                                    (if mv then ''mv'' else ''dvdt'') (getFileName ba3)
                                    sweepNumber colX fVm fDeriv colC (snd gated)
                                    peakWindow_pnts avgWindow_pnts)
                             (enumerate_py (fst gated)) (spikeDict ba3)) (\<lambda>sd.
                    let ba4 = ba3\<lparr> spikeDict := sd, spikeClips := None,
                                    spikeClips_x := None, spikeClips_x2 := None \<rparr>
                    in Inr (ba4\<lparr> dfError := Some (errorReport ba4),
                                  detectionDirty := True \<rparr>))))))))))"

text \<open>
  \<open>spikeDetect(dDict)\<close>: the spike list is emptied and every sweep is detected in turn.
  \<open>clock k\<close> is the wall-clock text read while the sweep at position \<open>k\<close> of
  \<open>sweepList\<close> is detected.
\<close>

definition spikeDetect ::
  "numlib \<Rightarrow> (nat \<Rightarrow> string) \<Rightarrow> bAnalysis \<Rightarrow> detection option \<Rightarrow> py_error + bAnalysis" where
  "spikeDetect L clock ba dDict =
     efold (\<lambda>ksweep b. spikeDetect_sweep L (clock (fst ksweep)) b (snd ksweep) dDict)
       (zip [0..<length (sweepList ba)] (sweepList ba)) (ba\<lparr> spikeDict := [] \<rparr>)"

section \<open>Reading statistics: \<open>getStat\<close>\<close>

text \<open>A Python value held in a spike dictionary.\<close>

datatype pyval =
    VNone | VInt int | VFloat "real nan_or" | VStr string | VIntList "int list"
  | VErrors "errorDict list" | VWidths "widthDict list"

definition int_or_nan :: "int nan_or \<Rightarrow> pyval" where
  "int_or_nan v = (case v of Num i \<Rightarrow> VInt i | NaN \<Rightarrow> VFloat NaN | PosInf \<Rightarrow> VFloat PosInf)"

definition int_or_none :: "int option \<Rightarrow> pyval" where
  "int_or_none v = (case v of None \<Rightarrow> VNone | Some i \<Rightarrow> VInt i)"

text \<open>The items of a spike dictionary, keys as in the source.\<close>

definition spike_items :: "spike \<Rightarrow> (string \<times> pyval) list" where
  "spike_items s =
     [(''include'', VInt (includeFlag s)),
      (''analysisVersion'', VStr (analysisVersion s)),
      (''interfaceVersion'', VStr (interfaceVersion s)),
      (''file'', (case fileName s of None \<Rightarrow> VNone | Some f \<Rightarrow> VStr f)),
      (''detectionType'', VStr (spike_detectionType s)),
      (''cellType'', VStr (spike_cellType s)),
      (''sex'', VStr (spike_sex s)),
      (''condition'', VStr (spike_condition s)),
      (''sweep'', VInt (int (sweep s))),
      (''sweepSpikeNumber'', VInt (sweepSpikeNumber s)),
      (''spikeNumber'', VInt (spikeNumber s)),
      (''errors'', VErrors (errors s)),
      (''dvdtThreshold'',
         (case spike_dvdtThreshold s of None \<Rightarrow> VNone | Some v \<Rightarrow> VFloat v)),
      (''mvThreshold'', VFloat (Num (spike_mvThreshold s))),
      (''medianFilter'', VInt (spike_medianFilter s)),
      (''halfHeights'', VIntList (spike_halfHeights s)),
      (''dacCommand'', VFloat (Num (dacCommand s))),
      (''thresholdPnt'', VInt (thresholdPnt s)),
      (''thresholdVal'', VFloat (Num (thresholdVal s))),
      (''thresholdVal_dvdt'', VFloat (Num (thresholdVal_dvdt s))),
      (''thresholdSec'', VFloat (Num (thresholdSec s))),
      (''peakPnt'', VInt (peakPnt s)),
      (''peakVal'', VFloat (Num (peakVal s))),
      (''peakSec'', VFloat (Num (peakSec s))),
      (''peakHeight'', VFloat (Num (peakHeight s))),
      (''preMinPnt'', int_or_none (preMinPnt s)),
      (''preMinVal'', VFloat (preMinVal s)),
      (''preLinearFitPnt0'', int_or_none (preLinearFitPnt0 s)),
      (''preLinearFitPnt1'', int_or_none (preLinearFitPnt1 s)),
      (''earlyDiastolicDuration_ms'', VFloat (earlyDiastolicDuration_ms s)),
      (''preLinearFitVal0'', VFloat (preLinearFitVal0 s)),
      (''preLinearFitVal1'', VFloat (preLinearFitVal1 s)),
      (''earlyDiastolicDurationRate'', VFloat (earlyDiastolicDurationRate s)),
      (''lateDiastolicDuration'', VFloat (lateDiastolicDuration s)),
      (''preSpike_dvdt_max_pnt'', int_or_none (preSpike_dvdt_max_pnt s)),
      (''preSpike_dvdt_max_val'', VFloat (preSpike_dvdt_max_val s)),
      (''preSpike_dvdt_max_val2'', VFloat (preSpike_dvdt_max_val2 s)),
      (''postSpike_dvdt_min_pnt'', int_or_none (postSpike_dvdt_min_pnt s)),
      (''postSpike_dvdt_min_val'', VFloat (postSpike_dvdt_min_val s)),
      (''postSpike_dvdt_min_val2'', VFloat (postSpike_dvdt_min_val2 s)),
      (''isi_pnts'', int_or_nan (isi_pnts s)),
      (''isi_ms'', VFloat (isi_ms s)),
      (''spikeFreq_hz'', VFloat (spikeFreq_hz s)),
      (''cycleLength_pnts'', int_or_nan (cycleLength_pnts s)),
      (''cycleLength_ms'', VFloat (cycleLength_ms s)),
      (''diastolicDuration_ms'', VFloat (diastolicDuration_ms s)),
      (''widths'', VWidths (widths s))]
     @ map (\<lambda>kv. (fst kv, VFloat (snd kv))) (widths_flat s)"

text \<open>The argument \<open>sweepNumber\<close>: None, the string \<open>'All'\<close>, or a sweep number.\<close>

datatype sweep_arg = SweepNone | SweepAll | SweepNumber nat

text \<open>
  The filter \<open>sweepNumber=='All' or spike['sweep']==sweepNumber\<close>. The statement
  \<open>sweepNumber=='All'\<close> under \<open>if sweepNumber is None\<close> is a comparison whose value is
  dropped, so None reaches the filter, where it equals neither \<open>'All'\<close> nor a number.
\<close>

definition sweep_match :: "sweep_arg \<Rightarrow> spike \<Rightarrow> bool" where
  "sweep_match sweepNumber s =
     (case sweepNumber of
        SweepAll \<Rightarrow> True
      | SweepNumber n \<Rightarrow> sweep s = n
      | SweepNone \<Rightarrow> False)"

text \<open>The inner function \<open>clean\<close>: None becomes \<open>float('nan')\<close>.\<close>

definition clean :: "pyval \<Rightarrow> pyval" where
  "clean val = (case val of VNone \<Rightarrow> VFloat NaN | v \<Rightarrow> v)"

text \<open>\<open>[clean(spike[statName]) for spike in self.spikeDict if ...]\<close>\<close>

definition stat_values :: "string \<Rightarrow> sweep_arg \<Rightarrow> spike list \<Rightarrow> py_error + pyval list" where
  "stat_values statName sweepNumber sd =
     emap (\<lambda>s. case map_of (spike_items s) statName of
                  None \<Rightarrow> Inl KeyError
                | Some v \<Rightarrow> Inr (clean v))
       (filter (sweep_match sweepNumber) sd)"

datatype stat_result = StatList "pyval list" | StatPair "pyval list" "pyval list"

definition getStat ::
  "bAnalysis \<Rightarrow> string \<Rightarrow> string option \<Rightarrow> sweep_arg \<Rightarrow> py_error + stat_result" where
  "getStat ba statName1 statName2 sweepNumber =
     (let sd = spikeDict ba;
          error = (if length sd = 0 then True
                   else if statName1 \<notin> set (map fst (spike_items (hd sd))) then True
                   else (case statName2 of
                           None \<Rightarrow> False
                         | Some n2 \<Rightarrow> n2 \<notin> set (map fst (spike_items (hd sd)))))
      in ebind (if \<not> error then stat_values statName1 sweepNumber sd else Inr []) (\<lambda>x.
           case statName2 of
             None \<Rightarrow> Inr (StatList x)
           | Some n2 \<Rightarrow>
               ebind (if \<not> error then stat_values n2 sweepNumber sd else Inr []) (\<lambda>y.
                 Inr (StatPair x y))))"

section \<open>Spike clips: \<open>_makeSpikeClips\<close>\<close>

definition pyval_int :: "pyval \<Rightarrow> py_error + int" where
  "pyval_int v = (case v of VInt i \<Rightarrow> Inr i | _ \<Rightarrow> Inl TypeError)"

text \<open>\<open>getStat(name, sweepNumber=sweepNumber)\<close> for a statistic whose values are integers.\<close>

definition getStat_ints :: "bAnalysis \<Rightarrow> string \<Rightarrow> sweep_arg \<Rightarrow> py_error + int list" where
  "getStat_ints ba statName sweepNumber =
     ebind (getStat ba statName None sweepNumber) (\<lambda>r.
       case r of StatList x \<Rightarrow> emap pyval_int x | StatPair x y \<Rightarrow> Inl TypeError)"

text \<open>
  The accessor \<open>sweepY(sweepNumber)\<close>: the whole two-dimensional array for None or
  \<open>'All'\<close>, the one-dimensional column \<open>_sweepY[:,sweepNumber]\<close> for a sweep number, which
  raises when the recording has no such sweep.
\<close>

datatype sweep_data = OneSweep "real list" | AllSweeps "real list list"

definition read_sweepY :: "bAnalysis \<Rightarrow> sweep_arg \<Rightarrow> py_error + sweep_data" where
  "read_sweepY ba sweepNumber =
     (case sweepNumber of
        SweepNumber n \<Rightarrow> ebind (column (sweepY ba) n) (\<lambda>col. Inr (OneSweep col))
      | _ \<Rightarrow> Inr (AllSweeps (sweepY ba)))"

text \<open>
  The slice of one clip from the array that was read before the loop: from the single
  column when it is one-dimensional, from column \<open>sweep\<close> of the whole array otherwise.
\<close>

definition clip_slice :: "sweep_data \<Rightarrow> int \<Rightarrow> int \<Rightarrow> int \<Rightarrow> py_error + real list" where
  "clip_slice sweepYs halfClipWidth_pnts spikeTime sweepOfSpike =
     (case sweepYs of
        OneSweep col \<Rightarrow>
          Inr (py_slice col (spikeTime - halfClipWidth_pnts) (spikeTime + halfClipWidth_pnts))
      | AllSweeps cols \<Rightarrow>
          ebind (py_index cols sweepOfSpike) (\<lambda>col.
            Inr (py_slice col (spikeTime - halfClipWidth_pnts)
                   (spikeTime + halfClipWidth_pnts))))"

text \<open>
  The loop over the spike times: a clip whose length is not \<open>numPointsInClip\<close> is not
  appended (the source only logs it).
\<close>

fun clip_loop ::
  "sweep_data \<Rightarrow> int \<Rightarrow> nat \<Rightarrow> int list \<Rightarrow> (int \<times> int) list \<Rightarrow> py_error + real list list" where
  "clip_loop sweepYs halfClipWidth_pnts numPointsInClip sweepNum [] = Inr []"
| "clip_loop sweepYs halfClipWidth_pnts numPointsInClip sweepNum ((idx, spikeTime) # rest) =
     ebind (py_index sweepNum idx) (\<lambda>sweepOfSpike.
     ebind (clip_slice sweepYs halfClipWidth_pnts spikeTime sweepOfSpike) (\<lambda>currentClip.
     ebind (clip_loop sweepYs halfClipWidth_pnts numPointsInClip sweepNum rest) (\<lambda>clips.
         Inr (if length currentClip = numPointsInClip then currentClip # clips
              else clips))))"

text \<open>
  \<open>_makeSpikeClips(spikeClipWidth_ms, theseTime_sec, sweepNumber)\<close>: the result is the
  updated object with the returned pair \<open>(spikeClips_x2, spikeClips)\<close>. The array
  \<open>sweepY\<close> and then the sweep of every spike are read once, before the loop.
\<close>

definition clipWidth :: "int \<Rightarrow> real \<Rightarrow> int" where
  "clipWidth pntsPerMs spikeClipWidth =
     (let clipWidth_pnts = py_round (spikeClipWidth * of_int pntsPerMs)
      in if clipWidth_pnts mod 2 = 0 then clipWidth_pnts else clipWidth_pnts + 1)"

definition makeSpikeClips ::
  "bAnalysis \<Rightarrow> real option \<Rightarrow> real list option \<Rightarrow> sweep_arg
     \<Rightarrow> py_error + (bAnalysis \<times> real list list \<times> real list list)" where
  "makeSpikeClips ba spikeClipWidth0 theseTime_sec sweepNumber0 =
     ebind (case spikeClipWidth0 of
              Some w \<Rightarrow> Inr w
            | None \<Rightarrow> (case detectionDict ba of
                         None \<Rightarrow> Inl TypeError
                       | Some d \<Rightarrow> Inr (spikeClipWidth_ms d))) (\<lambda>spikeClipWidth.
       let sweepNumber = (case sweepNumber0 of SweepNone \<Rightarrow> SweepAll | sw \<Rightarrow> sw)
       in ebind (case theseTime_sec of
                   None \<Rightarrow> getStat_ints ba ''thresholdPnt'' sweepNumber
                 | Some secs \<Rightarrow>
                     Inr (map (\<lambda>x. py_round (x * 1000 * of_int (dataPointsPerMs ba))) secs))
            (\<lambda>theseTime_pnts.
          let clipWidth_pnts = clipWidth (dataPointsPerMs ba) spikeClipWidth;
              halfClipWidth_pnts = clipWidth_pnts div 2;
              clips_x = map (\<lambda>x. (of_int x - of_int halfClipWidth_pnts)
                                     / of_int (dataPointsPerMs ba))
                          [0..clipWidth_pnts - 1];
              numPointsInClip = length clips_x
          in ebind (read_sweepY ba sweepNumber) (\<lambda>sweepYs.
             ebind (getStat_ints ba ''sweep'' sweepNumber) (\<lambda>sweepNum.
             ebind (clip_loop sweepYs halfClipWidth_pnts numPointsInClip sweepNum
                      (enumerate_py theseTime_pnts)) (\<lambda>clips.
               Inr (ba\<lparr> spikeClips := Some clips, spikeClips_x := Some clips_x,
                         spikeClips_x2 := Some (replicate (length clips) clips_x) \<rparr>,
                    replicate (length clips) clips_x, clips))))))"

section \<open>A worked recording\<close>

text \<open>
  A stand-in for the numeric library, for the closed examples below:
  \<open>savgol_5_2\<close> is the Savitzky-Golay filter of window 5 and order 2 (coefficients
  \<open>-3, 12, 17, 12, -3\<close> over 35) with the signal extended by its nearest value, the
  only filter \<open>rebuildFiltered\<close> asks for; \<open>lstsq_line\<close> is the least-squares line,
  with the TypeError of an empty vector and the rank warning of a degenerate one.
\<close>

definition savgol_5_2 :: "real list \<Rightarrow> real list" where
  "savgol_5_2 xs =
     (let n = int (length xs);
          smp = (\<lambda>j. xs ! nat (if j < 0 then 0 else if n \<le> j then n - 1 else j))
      in map (\<lambda>i. (- 3 * smp (i - 2) + 12 * smp (i - 1) + 17 * smp i + 12 * smp (i + 1)
                     - 3 * smp (i + 2)) / 35) [0..n - 1])"

definition lstsq_line :: "real list \<Rightarrow> real list \<Rightarrow> polyfit_result" where
  "lstsq_line xs ys =
     (let n = real (length xs); sx = sum_list xs; sy = sum_list ys;
          sxx = sum_list (map (\<lambda>x. x * x) xs);
          sxy = sum_list (map (\<lambda>(x, y). x * y) (zip xs ys));
          d = n * sxx - sx * sx
      in if xs = [] then FitTypeError
         else if d = 0 then FitRankWarning
         else Fit ((n * sxy - sx * sy) / d) ((sy * sxx - sx * sxy) / d))"

definition demo_lib :: numlib where
  "demo_lib = \<lparr> savgol_filter = (\<lambda>pnts poly xs. if pnts = 5 \<and> poly = 2 then Inr (savgol_5_2 xs) else Inl ValueError),
          polyfit1 = lstsq_line,
          str_float = (\<lambda>x. ''<float>''),
          sanpy_analysisVersion = ''20210501'', sanpy_interfaceVersion = ''20210501'' \<rparr>"

text \<open>
  One sweep of 47 samples at one point per ms: a baseline of -70 with two
  depolarisations to +30, the second with a slower upstroke. The configuration is the
  default one with a derivative threshold of 20, a refractory period of 17 ms, shorter
  windows and the single half-height 50.
\<close>

definition demo_raw :: "real list" where
  "demo_raw = replicate 10 (-70) @ [-60, -20, 30, 30, -20, -60] @ replicate 10 (-70)
      @ [-60, -40, -20, 30, 30, -20, -60] @ replicate 14 (-70)"

definition demo_ba :: bAnalysis where
  "demo_ba = \<lparr> dataPointsPerMs = 1, sweepList = [0],
     sweepX = [map (\<lambda>i. real i / 1000) [0..<47]],
     sweepY = [demo_raw], sweepC = [replicate 47 0], recordingMode = IClamp,
     path = Some ''data/demo.abf'',
     detectionDict = None, dateAnalyzed = None, detectionType = None, filteredVm = None,
     filteredDeriv = None, spikeDict = [], spikeClips = None, spikeClips_x = None,
     spikeClips_x2 = None, dfError = None, detectionDirty = False \<rparr>"

definition demo_cfg :: detection where
  "demo_cfg = getDefaultDetection\<lparr> dvdtThreshold := Some (Num 20), refractory_ms := 17,
     peakWindow_ms := 5, dvdtPreWindow_ms := 6, halfWidthWindow_ms := 8, mdp_ms := 10,
     avgWindow_ms := 2, halfHeights := [50] \<rparr>"

text \<open>
  The filtered amplitude and derivative of the sweep, the recording once they are
  cached, the two spike records of the run and the recording after it.
\<close>

definition demo_fVm :: "real list" where
  "demo_fVm = [- 70, - 70, - 70, - 70, - 70, - 70, - 70, - 70, - (496 / 7),
     - (496 / 7), - (396 / 7), - (116 / 7), 174 / 7, 174 / 7, - (116 / 7),
     - (396 / 7), - (496 / 7), - (496 / 7), - 70, - 70, - 70, - 70, - 70,
     - 70, - (496 / 7), - (484 / 7), - (414 / 7), - (304 / 7), - (74 / 7),
     162 / 7, 174 / 7, - (116 / 7), - (396 / 7), - (496 / 7), - (496 / 7),
     - 70, - 70, - 70, - 70, - 70, - 70, - 70, - 70, - 70, - 70, - 70,
     - 70]"

definition demo_fDeriv :: "real list" where
  "demo_fDeriv = [0, 0, 0, 0, 0, 0, 18 / 245, - (72 / 245), - (402 / 245), 288 / 245,
     4208 / 245, 1888 / 49, 1772 / 49, 0, - (1772 / 49), - (1888 / 49),
     - (4208 / 245), - (288 / 245), 402 / 245, 72 / 245, - (18 / 245), 0,
     18 / 245, - (108 / 245), - (24 / 35), 642 / 245, 1982 / 245,
     4726 / 245, 7816 / 245, 7456 / 245, - (6 / 5), - (1222 / 35),
     - (9476 / 245), - (4208 / 245), - (288 / 245), 402 / 245, 72 / 245,
     - (18 / 245), 0, 0, 0, 0, 0, 0, 0, 0, 0]"

definition demo_ba2 :: bAnalysis where
  "demo_ba2 = demo_ba\<lparr> detectionDict := Some demo_cfg, filteredVm := Some [demo_fVm],
                         filteredDeriv := Some [demo_fDeriv] \<rparr>"

definition demo_spike0 :: spike where
  "demo_spike0 =
     \<lparr> includeFlag = 1, analysisVersion = ''20210501'',
       interfaceVersion = ''20210501'', fileName = Some ''demo.abf'',
       spike_detectionType = ''dvdt'', spike_cellType = [], spike_sex = [],
       spike_condition = [], sweep = 0, sweepSpikeNumber = 0,
       spikeNumber = 0, errors = [], spike_dvdtThreshold = Some (Num 20),
       spike_mvThreshold = - 20, spike_medianFilter = 0,
       spike_halfHeights = [50], dacCommand = 0, thresholdPnt = 9,
       thresholdVal = - (496 / 7), thresholdVal_dvdt = 288 / 245,
       thresholdSec = 9 / 1000, peakPnt = 12, peakVal = 174 / 7,
       peakSec = 3 / 250, peakHeight = 670 / 7, preMinPnt = None,
       preMinVal = NaN, preLinearFitPnt0 = None, preLinearFitPnt1 = None,
       earlyDiastolicDuration_ms = NaN, preLinearFitVal0 = NaN,
       preLinearFitVal1 = NaN, earlyDiastolicDurationRate = NaN,
       lateDiastolicDuration = NaN, preSpike_dvdt_max_pnt = Some 11,
       preSpike_dvdt_max_val = Num (- (116 / 7)),
       preSpike_dvdt_max_val2 = Num (1888 / 49),
       postSpike_dvdt_min_pnt = Some 15,
       postSpike_dvdt_min_val = Num (- (396 / 7)),
       postSpike_dvdt_min_val2 = Num (- (1888 / 49)), isi_pnts = NaN,
       isi_ms = NaN, spikeFreq_hz = NaN, cycleLength_pnts = NaN,
       cycleLength_ms = NaN, diastolicDuration_ms = NaN,
       widths =
         [\<lparr> halfHeight = 50, risingPnt = Some 9,
             risingVal = Num (- (116 / 7)), fallingPnt = Some 15,
             fallingVal = Num (- (396 / 7)), widthPnts = Some 6,
             widthMs = Num 4 \<rparr>],
       widths_flat = [(''widths_50'', Num 4)] \<rparr>"

definition demo_spike1 :: spike where
  "demo_spike1 =
     \<lparr> includeFlag = 1, analysisVersion = ''20210501'',
       interfaceVersion = ''20210501'', fileName = Some ''demo.abf'',
       spike_detectionType = ''dvdt'', spike_cellType = [], spike_sex = [],
       spike_condition = [], sweep = 0, sweepSpikeNumber = 1,
       spikeNumber = 1,
       errors =
         [\<lparr> eSpike = 1, eSeconds = 1 / 40, eType = ''fitEDD'',
             eDetails = ''earlyDiastolicDurationRate fit'' \<rparr>,
          \<lparr> eSpike = 1, eSeconds = 1 / 40, eType = ''cycleLength'',
             eDetails = ''previous spike preMinPnt is None this preMinPnt:25'' \<rparr>],
       spike_dvdtThreshold = Some (Num 20), spike_mvThreshold = - 20,
       spike_medianFilter = 0, spike_halfHeights = [50], dacCommand = 0,
       thresholdPnt = 25, thresholdVal = - (484 / 7),
       thresholdVal_dvdt = 642 / 245, thresholdSec = 1 / 40, peakPnt = 29,
       peakVal = 162 / 7, peakSec = 29 / 1000, peakHeight = 646 / 7,
       preMinPnt = Some 25, preMinVal = Num (- (446 / 7)),
       preLinearFitPnt0 = Some 25, preLinearFitPnt1 = Some 25,
       earlyDiastolicDuration_ms = Num 0,
       preLinearFitVal0 = Num (- (484 / 7)),
       preLinearFitVal1 = Num (- (484 / 7)),
       earlyDiastolicDurationRate = NaN, lateDiastolicDuration = NaN,
       preSpike_dvdt_max_pnt = Some 28,
       preSpike_dvdt_max_val = Num (- (74 / 7)),
       preSpike_dvdt_max_val2 = Num (7816 / 245),
       postSpike_dvdt_min_pnt = Some 32,
       postSpike_dvdt_min_val = Num (- (396 / 7)),
       postSpike_dvdt_min_val2 = Num (- (9476 / 245)), isi_pnts = Num 16,
       isi_ms = Num 16, spikeFreq_hz = Num (125 / 2), cycleLength_pnts = NaN,
       cycleLength_ms = NaN, diastolicDuration_ms = Num 0,
       widths =
         [\<lparr> halfHeight = 50, risingPnt = Some 25,
             risingVal = Num (- (304 / 7)), fallingPnt = Some 32,
             fallingVal = Num (- (396 / 7)), widthPnts = Some 7,
             widthMs = Num 5 \<rparr>],
       widths_flat = [(''widths_50'', Num 5)] \<rparr>"

definition demo_time :: "real list" where
  "demo_time = map (\<lambda>i. real i / 1000) [0..<47]"

definition demo_final :: "string \<Rightarrow> bAnalysis" where
  "demo_final now =
     demo_ba2\<lparr> dateAnalyzed := Some now, detectionType := Some ''dVdtThreshold'',
               spikeDict := [demo_spike0, demo_spike1], spikeClips := None,
               spikeClips_x := None, spikeClips_x2 := None,
               dfError := Some (errors demo_spike1), detectionDirty := True \<rparr>"

text \<open>
  The default configuration with a median filter of width 3 selected, and the
  recording after a run with it.
\<close>

definition demo_cfg_median :: detection where
  "demo_cfg_median = getDefaultDetection\<lparr> medianFilter := 3 \<rparr>"

definition demo_final_median :: "string \<Rightarrow> bAnalysis" where
  "demo_final_median now =
     demo_ba\<lparr> detectionDict := Some demo_cfg_median, dateAnalyzed := Some now,
              detectionType := Some ''dVdtThreshold'', filteredVm := Some [demo_fVm],
              filteredDeriv := Some [demo_fDeriv], spikeDict := [], spikeClips := None,
              spikeClips_x := None, spikeClips_x2 := None, dfError := Some [],
              detectionDirty := True \<rparr>"




text \<open>
  A second recording, for detection on the amplitude: one sweep of 200 samples at two
  points per ms, a baseline that steps from -58 to -60 four samples before a first
  depolarisation to +20 at sample 20, and a second depolarisation at sample 170 from a
  flat baseline. The configuration is the default one without a derivative threshold,
  with a refractory period of 75 ms, shorter windows and the single half-height 50.
\<close>

definition vm_raw :: "real list" where
  "vm_raw = replicate 16 (- 58) @ replicate 4 (- 60) @ replicate 6 20 @ replicate 144 (- 60)
      @ replicate 6 20 @ replicate 24 (- 60)"

definition vm_time :: "real list" where
  "vm_time = map (\<lambda>i. real i / 2000) [0..<200]"

definition vm_ba :: bAnalysis where
  "vm_ba = \<lparr> dataPointsPerMs = 2, sweepList = [0], sweepX = [vm_time],
     sweepY = [vm_raw], sweepC = [replicate 200 0], recordingMode = IClamp,
     path = Some ''data/vm.abf'',
     detectionDict = None, dateAnalyzed = None, detectionType = None, filteredVm = None,
     filteredDeriv = None, spikeDict = [], spikeClips = None, spikeClips_x = None,
     spikeClips_x2 = None, dfError = None, detectionDirty = False \<rparr>"

definition vm_cfg :: detection where
  "vm_cfg = getDefaultDetection\<lparr> dvdtThreshold := None, refractory_ms := 75,
     peakWindow_ms := 20, halfWidthWindow_ms := 8, mdp_ms := 10,
     avgWindow_ms := 2, halfHeights := [50] \<rparr>"

text \<open>
  The filtered amplitude and derivative of that sweep, the recording once they are
  cached, the two spike records of the run and the recording after it.
\<close>

definition vm_fVm :: "real list" where
  "vm_fVm =
     [- 58, - 58, - 58, - 58, - 58, - 58, - 58, - 58, - 58, - 58, - 58, - 58, - 58, - 58,
     - (2024 / 35), - (2048 / 35), - (2082 / 35), - (2106 / 35), - (468 / 7), - (276 / 7),
     - (4 / 7), 188 / 7, 20, 20, 188 / 7, - (4 / 7), - (276 / 7), - (468 / 7), - 60, - 60,
     - 60, - 60, - 60, - 60, - 60, - 60, - 60, - 60, - 60, - 60, - 60, - 60, - 60, - 60,
     - 60, - 60, - 60, - 60, - 60, - 60, - 60, - 60, - 60, - 60, - 60, - 60, - 60, - 60,
     - 60, - 60, - 60, - 60, - 60, - 60, - 60, - 60, - 60, - 60, - 60, - 60, - 60, - 60,
     - 60, - 60, - 60, - 60, - 60, - 60, - 60, - 60, - 60, - 60, - 60, - 60, - 60, - 60,
     - 60, - 60, - 60, - 60, - 60, - 60, - 60, - 60, - 60, - 60, - 60, - 60, - 60, - 60,
     - 60, - 60, - 60, - 60, - 60, - 60, - 60, - 60, - 60, - 60, - 60, - 60, - 60, - 60,
     - 60, - 60, - 60, - 60, - 60, - 60, - 60, - 60, - 60, - 60, - 60, - 60, - 60, - 60,
     - 60, - 60, - 60, - 60, - 60, - 60, - 60, - 60, - 60, - 60, - 60, - 60, - 60, - 60,
     - 60, - 60, - 60, - 60, - 60, - 60, - 60, - 60, - 60, - 60, - 60, - 60, - 60, - 60,
     - 60, - 60, - 60, - 60, - 60, - 60, - 60, - 60, - 60, - 60, - 60, - 60, - (468 / 7),
     - (276 / 7), - (4 / 7), 188 / 7, 20, 20, 188 / 7, - (4 / 7), - (276 / 7),
     - (468 / 7), - 60, - 60, - 60, - 60, - 60, - 60, - 60, - 60, - 60, - 60, - 60, - 60,
     - 60, - 60, - 60, - 60, - 60, - 60, - 60, - 60, - 60, - 60]"

definition vm_fDeriv :: "real list" where
  "vm_fDeriv =
     [0, 0, 0, 0, 0, 0, 0, 0, 0, 0, 0, 0, - (36 / 1225), 288 / 1225, - (24 / 175),
     - (192 / 175), - (188 / 245), - (12864 / 1225), 936 / 175, 54048 / 1225,
     95164 / 1225, 1536 / 35, 1056 / 245, 0, - (1056 / 245), - (1536 / 35), - (544 / 7),
     - (1536 / 35), - (192 / 35), 2304 / 245, - (288 / 245), 0, 0, 0, 0, 0, 0, 0, 0, 0, 0,
     0, 0, 0, 0, 0, 0, 0, 0, 0, 0, 0, 0, 0, 0, 0, 0, 0, 0, 0, 0, 0, 0, 0, 0, 0, 0, 0, 0,
     0, 0, 0, 0, 0, 0, 0, 0, 0, 0, 0, 0, 0, 0, 0, 0, 0, 0, 0, 0, 0, 0, 0, 0, 0, 0, 0, 0,
     0, 0, 0, 0, 0, 0, 0, 0, 0, 0, 0, 0, 0, 0, 0, 0, 0, 0, 0, 0, 0, 0, 0, 0, 0, 0, 0, 0,
     0, 0, 0, 0, 0, 0, 0, 0, 0, 0, 0, 0, 0, 0, 0, 0, 0, 0, 0, 0, 0, 0, 0, 0, 0, 0, 0, 0,
     0, 0, 0, 0, 0, 0, 0, 0, 0, 0, 0, 0, 0, 288 / 245, - (2304 / 245), 192 / 35,
     1536 / 35, 544 / 7, 1536 / 35, 1056 / 245, 0, - (1056 / 245), - (1536 / 35),
     - (544 / 7), - (1536 / 35), - (192 / 35), 2304 / 245, - (288 / 245), 0, 0, 0, 0, 0,
     0, 0, 0, 0, 0, 0, 0, 0, 0, 0, 0, 0, 0, 0]"

definition vm_spike0 :: spike where
  "vm_spike0 =
     \<lparr> includeFlag = 1, analysisVersion = ''20210501'',
     interfaceVersion = ''20210501'', fileName = Some ''vm.abf'',
     spike_detectionType = ''mv'', spike_cellType = [], spike_sex = [],
     spike_condition = [], sweep = 0, sweepSpikeNumber = 0, spikeNumber = 0,
     errors = [\<lparr> eSpike = 0, eSeconds = 1 / 100, eType = ''spikeWidth'',
     eDetails = ''half width 50 error in rising point with halfWidthWindow_ms:<float> searching for Vm:<float> from peak sec <float>'' \<rparr>],
     spike_dvdtThreshold = None, spike_mvThreshold = - 20, spike_medianFilter = 0,
     spike_halfHeights = [50], dacCommand = 0, thresholdPnt = 20, thresholdVal = - (4 / 7),
     thresholdVal_dvdt = 95164 / 1225, thresholdSec = 1 / 100, peakPnt = 21,
     peakVal = 188 / 7, peakSec = 21 / 2000, peakHeight = 192 / 7, preMinPnt = None,
     preMinVal = NaN, preLinearFitPnt0 = None, preLinearFitPnt1 = None,
     earlyDiastolicDuration_ms = NaN, preLinearFitVal0 = NaN, preLinearFitVal1 = NaN,
     earlyDiastolicDurationRate = NaN, lateDiastolicDuration = NaN,
     preSpike_dvdt_max_pnt = Some 20, preSpike_dvdt_max_val = Num (- (4 / 7)),
     preSpike_dvdt_max_val2 = Num (95164 / 1225), postSpike_dvdt_min_pnt = Some 26,
     postSpike_dvdt_min_val = Num (- (276 / 7)),
     postSpike_dvdt_min_val2 = Num (- (544 / 7)), isi_pnts = NaN, isi_ms = NaN,
     spikeFreq_hz = NaN, cycleLength_pnts = NaN, cycleLength_ms = NaN,
     diastolicDuration_ms = NaN, widths = [\<lparr> halfHeight = 50, risingPnt = None,
     risingVal = NaN, fallingPnt = None, fallingVal = NaN, widthPnts = None,
     widthMs = NaN \<rparr>], widths_flat = [(''widths_50'', NaN)] \<rparr>"

definition vm_spike1 :: spike where
  "vm_spike1 =
     \<lparr> includeFlag = 1, analysisVersion = ''20210501'',
     interfaceVersion = ''20210501'', fileName = Some ''vm.abf'',
     spike_detectionType = ''mv'', spike_cellType = [], spike_sex = [],
     spike_condition = [], sweep = 0, sweepSpikeNumber = 1, spikeNumber = 1,
     errors = [\<lparr> eSpike = 1, eSeconds = 7 / 100, eType = ''preMin'',
     eDetails = ''searching for preMinVal:<float>'' \<rparr>, \<lparr> eSpike = 1,
     eSeconds = 7 / 100, eType = ''cycleLength'',
     eDetails = ''previous spike preMinPnt is None this preMinPnt:None'' \<rparr>],
     spike_dvdtThreshold = None, spike_mvThreshold = - 20, spike_medianFilter = 0,
     spike_halfHeights = [50], dacCommand = 0, thresholdPnt = 140, thresholdVal = - 60,
     thresholdVal_dvdt = 0, thresholdSec = 7 / 100, peakPnt = 171, peakVal = 188 / 7,
     peakSec = 171 / 2000, peakHeight = 608 / 7, preMinPnt = None, preMinVal = NaN,
     preLinearFitPnt0 = Some 122, preLinearFitPnt1 = Some 130,
     earlyDiastolicDuration_ms = Num 4, preLinearFitVal0 = Num (- 60),
     preLinearFitVal1 = Num (- 60), earlyDiastolicDurationRate = Num 0,
     lateDiastolicDuration = NaN, preSpike_dvdt_max_pnt = Some 170,
     preSpike_dvdt_max_val = Num (- (4 / 7)), preSpike_dvdt_max_val2 = Num (544 / 7),
     postSpike_dvdt_min_pnt = Some 176, postSpike_dvdt_min_val = Num (- (276 / 7)),
     postSpike_dvdt_min_val2 = Num (- (544 / 7)), isi_pnts = Num 120, isi_ms = Num 60,
     spikeFreq_hz = Num (50 / 3), cycleLength_pnts = NaN, cycleLength_ms = NaN,
     diastolicDuration_ms = Num 10, widths = [\<lparr> halfHeight = 50,
     risingPnt = Some 140, risingVal = Num (- (4 / 7)), fallingPnt = Some 176,
     fallingVal = Num (- (276 / 7)), widthPnts = Some 36, widthMs = Num 3 \<rparr>],
     widths_flat = [(''widths_50'', Num 3)] \<rparr>"

definition vm_ba2 :: bAnalysis where
  "vm_ba2 = vm_ba\<lparr> detectionDict := Some vm_cfg, filteredVm := Some [vm_fVm],
                       filteredDeriv := Some [vm_fDeriv] \<rparr>"

definition vm_final :: "string \<Rightarrow> bAnalysis" where
  "vm_final now =
     vm_ba2\<lparr> dateAnalyzed := Some now, detectionType := Some ''mvThreshold'',
              spikeDict := [vm_spike0, vm_spike1], spikeClips := None,
              spikeClips_x := None, spikeClips_x2 := None,
              dfError := Some (errors vm_spike0 @ errors vm_spike1), detectionDirty := True \<rparr>"

section \<open>Auxiliary notions for the proofs\<close>

text \<open>
  The pairs of neighbours in the index list \<open>Is\<close> with the sentinel 0 in front, and the
  indices below \<open>n\<close> at which the signal exceeds the threshold.
\<close>

definition run_pairs :: "int list \<Rightarrow> (int \<times> int) list" where
  "run_pairs js = zip (0 # js) js"

definition supra :: "real \<Rightarrow> real list \<Rightarrow> nat \<Rightarrow> int list" where
  "supra thr y n = map int (filter (\<lambda>i. thr < y ! i) [0..<n])"

section \<open>Verified properties\<close>

subsection \<open>Candidate crossings\<close>

lemma map_filter_nth:
  "map (\<lambda>k. f (xs ! k)) (filter (\<lambda>k. Q (xs ! k)) [0..<length xs]) = map f (filter Q xs)"
proof -
  have "map f (filter Q xs) = map f (filter Q (map (\<lambda>k. xs ! k) [0..<length xs]))"
    by (simp add: map_nth)
  also have "\<dots> = map (\<lambda>k. f (xs ! k)) (filter (\<lambda>k. Q (xs ! k)) [0..<length xs])"
    by (simp add: filter_map comp_def)
  finally show ?thesis by simp
qed

lemma zip_butlast_shorter:
  "length ys < length xs \<Longrightarrow> zip (butlast xs) ys = zip xs ys"
proof (induction xs arbitrary: ys)
  case Nil then show ?case by simp
next
  case (Cons x xs)
  show ?case
  proof (cases ys)
    case Nil then show ?thesis by simp
  next
    case (Cons y ys')
    with Cons.prems have "length ys' < length xs" by simp
    with Cons.IH[of ys'] Cons show ?thesis by auto
  qed
qed

lemma threshold_crossings_pairs:
  "threshold_crossings thr y =
     map snd (filter (\<lambda>(a, b). a - b + 1 \<noteq> 0) (run_pairs (np_where (\<lambda>v. thr < v) y)))"
proof -
  define js where "js = np_where (\<lambda>v. thr < v) y"
  define ps where "ps = zip (0 # js) js"
  have z: "zip (butlast (0 # js)) (tl (0 # js)) = ps"
    unfolding ps_def using zip_butlast_shorter[of js "0 # js"] by simp
  have len: "length ps = length js" by (simp add: ps_def)
  have nth: "\<And>k. k < length ps \<Longrightarrow> (0 # js) ! nat (int k + 1) = snd (ps ! k)"
    by (simp add: ps_def nat_add_distrib)
  have "threshold_crossings thr y =
      map (\<lambda>k. (0 # js) ! nat (k + 1))
        (np_where (\<lambda>d. d \<noteq> 0) (map (\<lambda>(a, b). a - b + 1) ps))"
    unfolding threshold_crossings_def Let_def js_def[symmetric] z ..
  also have "\<dots> = map (\<lambda>k. snd (ps ! k))
        (filter (\<lambda>k. (\<lambda>(a, b). a - b + 1 \<noteq> 0) (ps ! k)) [0..<length ps])"
  proof -
    have f: "filter (\<lambda>i. map (\<lambda>(a, b). a - b + 1) ps ! i \<noteq> 0) [0..<length ps]
        = filter (\<lambda>k. (\<lambda>(a, b). a - b + 1 \<noteq> 0) (ps ! k)) [0..<length ps]"
      by (rule filter_cong) (auto split: prod.splits)
    have m: "\<And>ks. set ks \<subseteq> {0..<length ps} \<Longrightarrow>
        map (\<lambda>k. (0 # js) ! nat (k + 1)) (map int ks) = map (\<lambda>k. snd (ps ! k)) ks"
    proof -
      fix ks :: "nat list" assume "set ks \<subseteq> {0..<length ps}"
      then have "\<And>k. k \<in> set ks \<Longrightarrow> (0 # js) ! nat (int k + 1) = snd (ps ! k)"
        using nth by auto
      then show "map (\<lambda>k. (0 # js) ! nat (k + 1)) (map int ks) = map (\<lambda>k. snd (ps ! k)) ks"
        by (simp add: comp_def del: nth_Cons_Suc)
    qed
    show ?thesis
      unfolding np_where_def length_map f
      by (rule m) auto
  qed
  also have "\<dots> = map snd (filter (\<lambda>(a, b). a - b + 1 \<noteq> 0) ps)"
    by (rule map_filter_nth)
  finally show ?thesis by (simp add: ps_def run_pairs_def js_def)
qed

lemma run_pairs_snoc:
  "run_pairs (js @ [j]) = run_pairs js @ [(last (0 # js), j)]"
proof -
  have "zip (0 # js @ [j]) (js @ [j]) = zip (butlast (0 # js @ [j])) (js @ [j])"
    using zip_butlast_shorter[of "js @ [j]" "0 # js @ [j]"] by simp
  also have "butlast (0 # js @ [j]) = butlast (0 # js) @ [last (0 # js)]"
    by (simp add: butlast_append)
  also have "zip (butlast (0 # js) @ [last (0 # js)]) (js @ [j])
      = zip (butlast (0 # js)) js @ [(last (0 # js), j)]"
    by (subst zip_append) auto
  also have "zip (butlast (0 # js)) js = zip (0 # js) js"
    by (rule zip_butlast_shorter) simp
  finally show ?thesis by (simp add: run_pairs_def)
qed

lemma last_supra_mem:
  "last (0 # supra thr y n) = 0 \<or>
   (\<exists>j. last (0 # supra thr y n) = int j \<and> j < n \<and> thr < y ! j)"
proof (cases "supra thr y n = []")
  case True then show ?thesis by simp
next
  case False
  then have "last (0 # supra thr y n) \<in> set (supra thr y n)" by simp
  then show ?thesis by (auto simp: supra_def)
qed

lemma last_supra_Suc:
  "thr < y ! n \<Longrightarrow> last (0 # supra thr y (Suc n)) = int n"
  by (simp add: supra_def)

lemma crossings_set_upto:
  "set (map snd (filter (\<lambda>(a, b). a - b + 1 \<noteq> 0) (run_pairs (supra thr y n)))) =
     int ` {i. i < n \<and> thr < y ! i \<and> (i = 0 \<or> \<not> thr < y ! (i - 1)) \<and> i \<noteq> 1}"
proof (induction n)
  case 0
  show ?case by (simp add: supra_def run_pairs_def)
next
  case (Suc n)
  let ?C = "\<lambda>m. map snd (filter (\<lambda>(a, b). a - b + 1 \<noteq> 0) (run_pairs (supra thr y m)))"
  let ?good = "\<lambda>i. thr < y ! i \<and> (i = 0 \<or> \<not> thr < y ! (i - 1)) \<and> i \<noteq> 1"
  show ?case
  proof (cases "thr < y ! n")
    case False
    then have "supra thr y (Suc n) = supra thr y n" by (simp add: supra_def)
    moreover have "{i. i < Suc n \<and> ?good i} = {i. i < n \<and> ?good i}"
      using False less_Suc_eq by auto
    ultimately show ?thesis using Suc.IH by simp
  next
    case True
    then have s: "supra thr y (Suc n) = supra thr y n @ [int n]" by (simp add: supra_def)
    have key: "(last (0 # supra thr y n) - int n + 1 \<noteq> 0) = ((n = 0 \<or> \<not> thr < y ! (n - 1)) \<and> n \<noteq> 1)"
    proof (cases n)
      case 0
      then show ?thesis by (simp add: supra_def)
    next
      case (Suc m)
      show ?thesis
      proof (cases "thr < y ! m")
        case True
        then show ?thesis using Suc last_supra_Suc[of thr y m] by simp
      next
        case False
        then have e: "supra thr y n = supra thr y m" using Suc by (simp add: supra_def)
        from last_supra_mem[of thr y m]
        show ?thesis using Suc False e by auto
      qed
    qed
    have "set (?C (Suc n)) = set (?C n) \<union> (if ?good n then {int n} else {})"
      unfolding s run_pairs_snoc using True key by auto
    moreover have "{i. i < Suc n \<and> ?good i} = {i. i < n \<and> ?good i} \<union> (if ?good n then {n} else {})"
      using less_Suc_eq by auto
    ultimately show ?thesis using Suc.IH by auto
  qed
qed

text \<open>
  Claim C10. In both detection modes the candidate crossings are computed by
  \<open>threshold_crossings\<close>. Its candidates are exactly the first samples of the runs of
  samples above the threshold, except a run that starts at index 1: that run is merged
  with the prepended index 0 and gives no candidate, while a run that starts at index 0
  or at an index of at least 2 gives its first sample.
\<close>

theorem C10_run_start_candidates:
  "set (threshold_crossings thr y) =
     int ` {i. i < length y \<and> thr < y ! i \<and> (i = 0 \<or> \<not> thr < y ! (i - 1)) \<and> i \<noteq> 1}"
proof -
  have "np_where (\<lambda>v. thr < v) y = supra thr y (length y)"
    by (simp add: np_where_def supra_def)
  then show ?thesis
    using crossings_set_upto[of thr y "length y"] by (simp add: threshold_crossings_pairs)
qed

text \<open>The claim at two short signals with threshold 1: a run from index 1, a run from index 0.\<close>

theorem C10_run_start_candidates_witness:
  "(4::int) \<in> set (threshold_crossings 1 [0, 5, 5, 0, 5]) \<and>
   (1::int) \<notin> set (threshold_crossings 1 [0, 5, 5, 0, 5]) \<and>
   (0::int) \<in> set (threshold_crossings 1 [5, 5, 0, 0, 5])"
proof -
  have a: "(4::nat) \<in> {i. i < length [0, 5, 5, 0, 5 :: real] \<and> 1 < [0, 5, 5, 0, 5 :: real] ! i \<and>
             (i = 0 \<or> \<not> 1 < [0, 5, 5, 0, 5 :: real] ! (i - 1)) \<and> i \<noteq> 1}"
    by simp
  have b: "(1::nat) \<notin> {i. i < length [0, 5, 5, 0, 5 :: real] \<and> 1 < [0, 5, 5, 0, 5 :: real] ! i \<and>
             (i = 0 \<or> \<not> 1 < [0, 5, 5, 0, 5 :: real] ! (i - 1)) \<and> i \<noteq> 1}"
    by simp
  have c: "(0::nat) \<in> {i. i < length [5, 5, 0, 0, 5 :: real] \<and> 1 < [5, 5, 0, 0, 5 :: real] ! i \<and>
             (i = 0 \<or> \<not> 1 < [5, 5, 0, 0, 5 :: real] ! (i - 1)) \<and> i \<noteq> 1}"
    by simp
  have "int 4 \<in> set (threshold_crossings 1 [0, 5, 5, 0, 5])"
    unfolding C10_run_start_candidates[of 1 "[0, 5, 5, 0, 5]"] using a by (rule imageI)
  moreover have "int 1 \<notin> set (threshold_crossings 1 [0, 5, 5, 0, 5])"
    unfolding C10_run_start_candidates[of 1 "[0, 5, 5, 0, 5]"] using b by (simp add: image_iff)
  moreover have "int 0 \<in> set (threshold_crossings 1 [5, 5, 0, 0, 5])"
    unfolding C10_run_start_candidates[of 1 "[5, 5, 0, 0, 5]"] using c by (rule imageI)
  ultimately show ?thesis by simp
qed

subsection \<open>Refractory collapsing\<close>

lemma py_round_nonneg: "0 \<le> x \<Longrightarrow> 0 \<le> py_round x"
  by (simp add: py_round_def Let_def)

lemma pow2_pos: "0 < pow2 e"
  by (simp add: pow2_def)

lemma double_round_nonneg:
  assumes "0 \<le> x"
  shows "double_round x \<noteq> MinusInf \<and> (\<forall>v. double_round x = Finite v \<longrightarrow> 0 \<le> v)"
proof (cases "x = 0")
  case True
  then show ?thesis by (simp add: double_round_def)
next
  case False
  define e where "e = max (double_exponent x) (- 1022)"
  define m where "m = py_round (x / pow2 (e - 52))"
  have u: "0 < pow2 (e - 52)" by (rule pow2_pos)
  then have "0 \<le> x / pow2 (e - 52)" using assms by simp
  then have m: "0 \<le> m" unfolding m_def by (rule py_round_nonneg)
  have x: "0 < x" using assms False by simp
  have dr: "double_round x = (if 1024 \<le> e \<or> e = 1023 \<and> 2 ^ 53 \<le> \<bar>m\<bar> then PlusInf
              else Finite (real_of_int m * pow2 (e - 52)))"
    unfolding double_round_def Let_def e_def m_def
    by (simp only: False x if_False if_True)
  have "0 \<le> real_of_int m * pow2 (e - 52)" using m u by simp
  then show ?thesis by (auto simp: dr)
qed

lemma refractory_mark_gaps:
  assumes G: "minGap \<noteq> MinusInf" "\<And>v. minGap = Finite v \<Longrightarrow> 0 \<le> v"
  shows "sorted_wrt (\<lambda>a b. \<not> int_less_double (b - a) minGap)
           (lastGood # filter (\<lambda>t. t \<noteq> 0) (refractory_mark minGap lastGood ts))"
proof (induction ts arbitrary: lastGood)
  case Nil
  show ?case by simp
next
  case (Cons t ts)
  show ?case
  proof (cases "int_less_double (t - lastGood) minGap")
    case True
    then show ?thesis using Cons.IH[of lastGood] by simp
  next
    case False
    have ih: "sorted_wrt (\<lambda>a b. \<not> int_less_double (b - a) minGap)
                (t # filter (\<lambda>t. t \<noteq> 0) (refractory_mark minGap t ts))"
      by (rule Cons.IH)
    have step: "\<not> int_less_double (z - lastGood) minGap"
      if "\<not> int_less_double (z - t) minGap" for z
      using that False G by (cases minGap) auto
    show ?thesis using False ih step by auto
  qed
qed

lemma sorted_wrt_consecutive:
  "sorted_wrt P xs \<Longrightarrow> 0 < k \<Longrightarrow> k < length xs \<Longrightarrow> P (xs ! (k - 1)) (xs ! k)"
  by (simp add: sorted_wrt_iff_nth_less)

text \<open>
  Claim C1, as amended. For a positive sampling rate and a refractory period that is
  not negative, two consecutive spike times that \<open>_throwOutRefractory\<close> keeps pass the
  test the code makes: their distance in samples is not below the double product
  \<open>dataPointsPerMs*refractory_ms\<close>. When that product is exact, they are at least
  \<open>refractory_ms\<close> apart, in ms. The backup steps that run afterwards are not covered.
\<close>

theorem C1_refractory_after_collapse:
  assumes dpp: "0 < pntsPerMs" and ref: "0 \<le> refractory"
    and run: "throwOutRefractory pntsPerMs spikeTimes0 goodSpikeErrors refractory = Inr (kept, errs)"
    and k: "0 < k" "k < length kept"
  shows "\<not> int_less_double (kept ! k - kept ! (k - 1))
             (double_mul (real_of_int pntsPerMs) refractory) \<and>
         (double_mul (real_of_int pntsPerMs) refractory
            = Finite (real_of_int pntsPerMs * refractory) \<longrightarrow>
          refractory \<le> real_of_int (kept ! k - kept ! (k - 1)) / real_of_int pntsPerMs)"
proof -
  let ?G = "double_mul (real_of_int pntsPerMs) refractory"
  have "0 \<le> real_of_int pntsPerMs * refractory" using dpp ref by simp
  from double_round_nonneg[OF this]
  have G: "?G \<noteq> MinusInf" "\<And>v. ?G = Finite v \<Longrightarrow> 0 \<le> v"
    by (simp_all add: double_mul_def)
  have kept: "kept = filter (\<lambda>t. t \<noteq> 0) (refractory_marked pntsPerMs refractory spikeTimes0)"
    using run by (auto simp: throwOutRefractory_def Let_def ebind_def split: option.splits sum.splits)
  have "sorted_wrt (\<lambda>a b. \<not> int_less_double (b - a) ?G) kept"
  proof (cases spikeTimes0)
    case Nil
    then show ?thesis by (simp add: kept refractory_marked_def)
  next
    case (Cons t ts)
    from refractory_mark_gaps[of ?G t ts, OF G]
    show ?thesis by (auto simp: kept refractory_marked_def Cons)
  qed
  from sorted_wrt_consecutive[OF this k]
  have gap: "\<not> int_less_double (kept ! k - kept ! (k - 1)) ?G" .
  have "refractory \<le> real_of_int (kept ! k - kept ! (k - 1)) / real_of_int pntsPerMs"
    if "?G = Finite (real_of_int pntsPerMs * refractory)"
    using gap dpp unfolding that by (simp add: pos_le_divide_eq mult.commute not_less)
  with gap show ?thesis by blast
qed

lemma double_mul_1_5: "double_mul 1 5 = Finite 5"
  by code_simp

text \<open>
  The times 10, 12, 30 at one point per ms and a refractory period of 5 ms, whose
  product is exact.
\<close>

theorem C1_refractory_after_collapse_witness:
  "0 < (1::int) \<and> 0 \<le> (5::real) \<and>
   throwOutRefractory 1 [10, 12, 30] (None :: unit list option) 5 = Inr ([10, 30], None) \<and>
   double_mul (real_of_int 1) 5 = Finite (real_of_int 1 * 5) \<and>
   \<not> int_less_double ([10, 30] ! 1 - [10, 30] ! (1 - 1)) (double_mul (real_of_int 1) 5) \<and>
   (5::real) \<le> real_of_int ([10, 30] ! 1 - [10, 30] ! (1 - 1)) / real_of_int 1"
proof -
  have run: "throwOutRefractory 1 [10, 12, 30] (None :: unit list option) 5 = Inr ([10, 30], None)"
    by (simp add: throwOutRefractory_def refractory_marked_def double_mul_1_5)
  have exact: "double_mul (real_of_int 1) 5 = Finite (real_of_int 1 * 5)"
    by (simp add: double_mul_1_5)
  have "\<not> int_less_double ([10, 30] ! 1 - [10, 30] ! (1 - 1)) (double_mul (real_of_int 1) 5) \<and>
        (double_mul (real_of_int 1) 5 = Finite (real_of_int 1 * 5) \<longrightarrow>
          (5::real) \<le> real_of_int ([10, 30] ! 1 - [10, 30] ! (1 - 1)) / real_of_int 1)"
    by (rule C1_refractory_after_collapse[OF _ _ run]) simp_all
  then show ?thesis using run exact by simp
qed

subsection \<open>Backup to a fraction of the maximal derivative\<close>










subsection \<open>The worked recording, step by step\<close>

text \<open>
  Evaluation by rewriting, with the arguments of a sequencing step or a case
  distinction evaluated before its continuation.
\<close>

lemma demo_savgol1: "savgol_5_2 demo_raw = demo_fVm"
  by code_simp

lemma demo_savgol2: "savgol_5_2 (np_diff demo_fVm) = tl demo_fDeriv"
  by code_simp

lemma demo_filter_column:
  "filter_column demo_lib getDefaultDetection col = Inr (savgol_5_2 col)"
  by (simp add: filter_column_def getDefaultDetection_def demo_lib_def)

lemma demo_rebuild:
  "rebuildFiltered demo_lib (demo_ba\<lparr> detectionDict := Some demo_cfg \<rparr>) = Inr demo_ba2"
  by (simp add: rebuildFiltered_def getDerivative_def demo_filter_column ebind_def
        demo_savgol1 demo_savgol2 demo_ba_def demo_ba2_def demo_fDeriv_def)

lemma demo_detect:
  "detect_dvdt demo_lib (demo_ba2\<lparr> dateAnalyzed := x, detectionType := y \<rparr>) demo_cfg 0
     = Inr ([9, 25], [None, None])"
proof -
  have "spikeDetect_dvdt demo_lib 1 demo_cfg demo_fDeriv demo_raw = Inr ([9, 25], [None, None])"
    by code_simp
  then show ?thesis
    by (simp add: detect_dvdt_def column_opt_def column_def ebind_def demo_ba2_def demo_ba_def)
qed

lemma demo_gate:
  "peaks_above (- 20) 5 demo_fVm [None, None :: errorDict option] [(0, 9), (1, 25)]
     = Inr ([9, 25], [None, None])"
  by code_simp


lemma ebind_weak_cong: "m = m' \<Longrightarrow> ebind m f = ebind m' f"
  by simp

lemmas eval_congs = ebind_weak_cong if_weak_cong let_weak_cong list.case_cong_weak
  sum.case_cong_weak option.case_cong_weak prod.case_cong_weak

lemmas eval_defs = ebind_def Let_def py_slice_def py_norm_def py_index_def py_round_def py_int_def
  np_where_def np_where_first_def np_average_def enumerate_py_def getErrorDict_def round4_def
  pnt2Ms_def update_spike_def add_error_def default_width_def

lemma str_int_50: "str_int 50 = ''50''"
  by code_simp

lemma str_int_25: "str_int 25 = ''25''"
  by code_simp

lemma demo_spike_one_0:
  "spike_one demo_lib 1 demo_cfg ''dvdt'' (Some ''demo.abf'') 0 demo_time demo_fVm demo_fDeriv
     (replicate 47 0) [None, None] 5 1 (0, 9) [] = Inr [demo_spike0]"
  by (simp add: spike_one_def eval_defs new_spike_def preSpike_dvdt_def postSpike_dvdt_def
        half_width_try_def demo_cfg_def getDefaultDetection_def demo_lib_def demo_fVm_def
        demo_fDeriv_def demo_spike0_def str_int_50 upt_conv_Cons
      cong: eval_congs)


lemma demo_spike_one_1:
  "spike_one demo_lib 1 demo_cfg ''dvdt'' (Some ''demo.abf'') 0 demo_time demo_fVm demo_fDeriv
     (replicate 47 0) [None, None] 5 1 (1, 25) [demo_spike0] = Inr [demo_spike0, demo_spike1]"
  by (simp add: spike_one_def eval_defs new_spike_def preSpike_dvdt_def postSpike_dvdt_def
        half_width_try_def preMin_search_def linear_fit_def isi_block_def lstsq_line_def
        demo_cfg_def getDefaultDetection_def demo_lib_def demo_fVm_def str_int_opt_def
        demo_fDeriv_def demo_spike0_def demo_spike1_def str_int_50 str_int_25 upt_conv_Cons
      cong: eval_congs)

lemma demo_ba_reset: "demo_ba\<lparr> spikeDict := [] \<rparr> = demo_ba"
  by (simp add: demo_ba_def)

lemma demo_ba2_fields:
  "dataPointsPerMs demo_ba2 = 1" "sweepX demo_ba2 = [demo_time]" "sweepC demo_ba2 = [replicate 47 0]"
  "filteredVm demo_ba2 = Some [demo_fVm]" "filteredDeriv demo_ba2 = Some [demo_fDeriv]"
  "spikeDict demo_ba2 = []" "sweepList demo_ba = [0]"
  by (simp_all add: demo_ba2_def demo_ba_def demo_time_def)

lemma demo_cfg_fields:
  "dvdtThreshold demo_cfg = Some (Num 20)" "peakWindow_ms demo_cfg = 5"
  "onlyPeaksAbove_mV demo_cfg = Some (- 20)" "avgWindow_ms demo_cfg = 2"
  by (simp_all add: demo_cfg_def getDefaultDetection_def)

lemma demo_fileName: "getFileName (demo_ba2\<lparr> dateAnalyzed := x, detectionType := y \<rparr>) = Some ''demo.abf''"
  by (simp add: getFileName_def demo_ba2_def demo_ba_def)

lemma demo_errors: "errors demo_spike0 = []"
  by (simp add: demo_spike0_def)

lemma demo_spikeDetect:
  "spikeDetect demo_lib clock demo_ba (Some demo_cfg) = Inr (demo_final (clock 0))"
  by (simp add: spikeDetect_def spikeDetect_sweep_def demo_ba_reset demo_rebuild demo_detect
        demo_ba2_fields demo_cfg_fields demo_fileName demo_gate demo_spike_one_0
        demo_spike_one_1 demo_errors demo_final_def errorReport_def
        ebind_def Let_def column_def column_opt_def py_round_def enumerate_py_def upt_conv_Cons
      del: peaks_above.simps cong: eval_congs)

subsection \<open>The recording detected on the amplitude, step by step\<close>

lemma vm_savgol1: "savgol_5_2 vm_raw = vm_fVm"
  by code_simp

lemma vm_savgol2: "0 # map (\<lambda>v. v * 2) (savgol_5_2 (np_diff vm_fVm)) = vm_fDeriv"
  by code_simp

lemma vm_rebuild:
  "rebuildFiltered demo_lib (vm_ba\<lparr> detectionDict := Some vm_cfg \<rparr>) = Inr vm_ba2"
  by (simp add: rebuildFiltered_def getDerivative_def demo_filter_column ebind_def
        vm_savgol1 vm_savgol2 vm_ba_def vm_ba2_def)

lemma vm_crossings: "spikeDetect_vm 2 vm_cfg vm_fVm vm_raw = Inr ([20, 170], [None, None])"
  by code_simp

lemma vm_backup: "backupSpikeVm 2 vm_raw [20, 170] = [Num 20, Num 140]"
  by code_simp

lemma vm_detect:
  "detect_mv (vm_ba2\<lparr> dateAnalyzed := x, detectionType := y \<rparr>) vm_cfg 0
     = Inr ([20, 140], [None, None])"
proof -
  have b: "doBackupSpikeVm vm_cfg" by (simp add: vm_cfg_def getDefaultDetection_def)
  show ?thesis
    by (simp add: detect_mv_def column_opt_def column_def ebind_def vm_ba2_def vm_ba_def
          vm_crossings vm_backup b)
qed

lemma vm_gate:
  "peaks_above (- 20) 40 vm_fVm [None, None :: errorDict option] [(0, 20), (1, 140)]
     = Inr ([20, 140], [None, None])"
  by code_simp

lemma vm_spike_one_0:
  "spike_one demo_lib 2 vm_cfg ''mv'' (Some ''vm.abf'') 0 vm_time vm_fVm vm_fDeriv
     (replicate 200 0) [None, None] 40 2 (0, 20) [] = Inr [vm_spike0]"
  by (simp add: spike_one_def eval_defs new_spike_def preSpike_dvdt_def postSpike_dvdt_def
        half_width_try_def width_errStr_def vm_cfg_def getDefaultDetection_def demo_lib_def vm_fVm_def
        vm_fDeriv_def vm_spike0_def str_int_50 upt_conv_Cons
      cong: eval_congs)

lemma vm_spike_one_1:
  "spike_one demo_lib 2 vm_cfg ''mv'' (Some ''vm.abf'') 0 vm_time vm_fVm vm_fDeriv
     (replicate 200 0) [None, None] 40 2 (1, 140) [vm_spike0] = Inr [vm_spike0, vm_spike1]"
  by (simp add: spike_one_def eval_defs new_spike_def preSpike_dvdt_def postSpike_dvdt_def
        half_width_try_def width_errStr_def preMin_search_def linear_fit_def isi_block_def lstsq_line_def
        vm_cfg_def getDefaultDetection_def demo_lib_def vm_fVm_def str_int_opt_def str_nan_def
        vm_fDeriv_def vm_spike0_def vm_spike1_def vm_time_def str_int_50 upt_conv_Cons
      cong: eval_congs)


lemma vm_ba_reset: "vm_ba\<lparr> spikeDict := [] \<rparr> = vm_ba"
  by (simp add: vm_ba_def)

lemma vm_ba2_fields:
  "dataPointsPerMs vm_ba2 = 2" "sweepX vm_ba2 = [vm_time]" "sweepC vm_ba2 = [replicate 200 0]"
  "filteredVm vm_ba2 = Some [vm_fVm]" "filteredDeriv vm_ba2 = Some [vm_fDeriv]"
  "spikeDict vm_ba2 = []" "sweepList vm_ba = [0]"
  by (simp_all add: vm_ba2_def vm_ba_def)

lemma vm_cfg_fields:
  "dvdtThreshold vm_cfg = None" "peakWindow_ms vm_cfg = 20"
  "onlyPeaksAbove_mV vm_cfg = Some (- 20)" "avgWindow_ms vm_cfg = 2"
  by (simp_all add: vm_cfg_def getDefaultDetection_def)

lemma vm_fileName: "getFileName (vm_ba2\<lparr> dateAnalyzed := x, detectionType := y \<rparr>) = Some ''vm.abf''"
  by (simp add: getFileName_def vm_ba2_def vm_ba_def)

lemma vm_spikeDetect:
  "spikeDetect demo_lib clock vm_ba (Some vm_cfg) = Inr (vm_final (clock 0))"
  by (simp add: spikeDetect_def spikeDetect_sweep_def vm_ba_reset vm_rebuild vm_detect
        vm_ba2_fields vm_cfg_fields vm_fileName vm_gate vm_spike_one_0
        vm_spike_one_1 vm_final_def errorReport_def
        ebind_def Let_def column_def column_opt_def py_round_def enumerate_py_def upt_conv_Cons
      del: peaks_above.simps cong: eval_congs)

lemma refractory_rounded_product:
  "throwOutRefractory 10 [100, 117] (None :: unit list option) (7656119366529844 / 2 ^ 52)
     = Inr ([100, 117], None)"
  by code_simp

lemma vm_collapsed:
  "throwOutRefractory 2 [20, 170] (Some [None, None :: errorDict option]) 75
     = Inr ([20, 170], Some [None, None])"
  by code_simp

text \<open>
  Claim C1 as stated fails, in three ways. On the first worked recording the derivative
  crosses the threshold at samples 11 and 28, 17 ms apart, so both crossings survive the
  refractory period of 17 ms; the backup then moves them to samples 9 and 25, and the
  records of the run have onsets 16 ms apart. On the second recording the amplitude
  crosses at samples 20 and 170, 75 ms apart, and both survive the refractory period of
  75 ms; \<open>_backupSpikeVm\<close> leaves the first where it is (the step in the baseline stops
  its walk at once) and walks the second back 30 samples over the flat baseline, and the
  records of the run have onsets 60 ms apart. And without any backup, at 10 points per
  ms and a refractory period of \<open>1.7000000000000002\<close> ms (the double
  \<open>7656119366529844 / 2^52\<close>) the product rounds to 17.0, so the times 100 and 117 are
  both kept although they are only 1.7 ms apart.
\<close>

theorem C1_refractory_counterexample:
  "spikeDetect demo_lib (\<lambda>k. ''2021-05-01 12:00:00'') demo_ba (Some demo_cfg)
     = Inr (demo_final ''2021-05-01 12:00:00'') \<and>
   map thresholdPnt (spikeDict (demo_final ''2021-05-01 12:00:00'')) = [9, 25] \<and>
   map sweep (spikeDict (demo_final ''2021-05-01 12:00:00'')) = [0, 0] \<and>
   real_of_int (25 - 9) / real_of_int (dataPointsPerMs demo_ba) < refractory_ms demo_cfg \<and>
   spikeDetect_vm 2 vm_cfg vm_fVm vm_raw = Inr ([20, 170], [None, None]) \<and>
   backupSpikeVm 2 vm_raw [20, 170] = [Num 20, Num 140] \<and>
   spikeDetect demo_lib (\<lambda>k. ''2021-05-01 12:00:00'') vm_ba (Some vm_cfg)
     = Inr (vm_final ''2021-05-01 12:00:00'') \<and>
   map thresholdPnt (spikeDict (vm_final ''2021-05-01 12:00:00'')) = [20, 140] \<and>
   map sweep (spikeDict (vm_final ''2021-05-01 12:00:00'')) = [0, 0] \<and>
   real_of_int (140 - 20) / real_of_int (dataPointsPerMs vm_ba) < refractory_ms vm_cfg \<and>
   throwOutRefractory 10 [100, 117] (None :: unit list option) (7656119366529844 / 2 ^ 52)
     = Inr ([100, 117], None) \<and>
   real_of_int (117 - 100) / real_of_int 10 < (7656119366529844 / 2 ^ 52 :: real)"
proof -
  have run: "spikeDetect demo_lib (\<lambda>k. ''2021-05-01 12:00:00'') demo_ba (Some demo_cfg)
               = Inr (demo_final ''2021-05-01 12:00:00'')"
    by (simp add: demo_spikeDetect)
  have onsets: "map thresholdPnt (spikeDict (demo_final ''2021-05-01 12:00:00'')) = [9, 25]"
    by (simp add: demo_final_def demo_spike0_def demo_spike1_def)
  have sweeps: "map sweep (spikeDict (demo_final ''2021-05-01 12:00:00'')) = [0, 0]"
    by (simp add: demo_final_def demo_spike0_def demo_spike1_def)
  have gap: "real_of_int (25 - 9) / real_of_int (dataPointsPerMs demo_ba) < refractory_ms demo_cfg"
    by (simp add: demo_ba_def demo_cfg_def)
  have vcross: "spikeDetect_vm 2 vm_cfg vm_fVm vm_raw = Inr ([20, 170], [None, None])"
    by (rule vm_crossings)
  have vback: "backupSpikeVm 2 vm_raw [20, 170] = [Num 20, Num 140]"
    by (rule vm_backup)
  have vrun: "spikeDetect demo_lib (\<lambda>k. ''2021-05-01 12:00:00'') vm_ba (Some vm_cfg)
               = Inr (vm_final ''2021-05-01 12:00:00'')"
    by (simp add: vm_spikeDetect)
  have vonsets: "map thresholdPnt (spikeDict (vm_final ''2021-05-01 12:00:00'')) = [20, 140]"
    by (simp add: vm_final_def vm_spike0_def vm_spike1_def)
  have vsweeps: "map sweep (spikeDict (vm_final ''2021-05-01 12:00:00'')) = [0, 0]"
    by (simp add: vm_final_def vm_spike0_def vm_spike1_def)
  have vgap: "real_of_int (140 - 20) / real_of_int (dataPointsPerMs vm_ba) < refractory_ms vm_cfg"
    by (simp add: vm_ba_def vm_cfg_def)
  have rounded: "throwOutRefractory 10 [100, 117] (None :: unit list option)
                   (7656119366529844 / 2 ^ 52) = Inr ([100, 117], None)"
    by (rule refractory_rounded_product)
  have rgap: "real_of_int (117 - 100) / real_of_int 10 < (7656119366529844 / 2 ^ 52 :: real)"
    by simp
  show ?thesis
    using run onsets sweeps gap vcross vback vrun vonsets vsweeps vgap rounded rgap
    by (intro conjI)
qed

subsection \<open>The backup on the worked recording\<close>






subsection \<open>Reading statistics\<close>

lemma emap_total:
  "(\<And>x. x \<in> set xs \<Longrightarrow> \<exists>y. f x = Inr y) \<Longrightarrow>
     \<exists>ys. emap f xs = Inr ys \<and> length ys = length xs"
proof (induction xs)
  case Nil
  show ?case by simp
next
  case (Cons x xs)
  from Cons.prems[of x] obtain y where y: "f x = Inr y" by auto
  from Cons.IH Cons.prems obtain ys where ys: "emap f xs = Inr ys" "length ys = length xs"
    by auto
  show ?case by (simp add: y ys ebind_def)
qed





text \<open>
  Claim C4, as amended. When \<open>statName1\<close>, or a given \<open>statName2\<close>, is not a key of the
  first spike record, \<open>getStat\<close> returns normally: an empty list, or a pair of empty
  lists when \<open>statName2\<close> is given. Nothing is raised (the source logs a warning).
\<close>

theorem C4_getStat_unknown_name_returns_empty:
  assumes "statName1 \<notin> set (map fst (spike_items (hd (spikeDict ba)))) \<or>
           (\<exists>n2. statName2 = Some n2 \<and> n2 \<notin> set (map fst (spike_items (hd (spikeDict ba)))))"
  shows "getStat ba statName1 statName2 sweepNumber =
           Inr (case statName2 of None \<Rightarrow> StatList [] | Some n2 \<Rightarrow> StatPair [] [])"
  using assms by (auto simp: getStat_def Let_def ebind_def split: option.splits)

lemma demo_keys:
  "map fst (spike_items demo_spike0) =
     [''include'', ''analysisVersion'', ''interfaceVersion'', ''file'', ''detectionType'',
      ''cellType'', ''sex'', ''condition'', ''sweep'', ''sweepSpikeNumber'', ''spikeNumber'',
      ''errors'', ''dvdtThreshold'', ''mvThreshold'', ''medianFilter'', ''halfHeights'',
      ''dacCommand'', ''thresholdPnt'', ''thresholdVal'', ''thresholdVal_dvdt'',
      ''thresholdSec'', ''peakPnt'', ''peakVal'', ''peakSec'', ''peakHeight'', ''preMinPnt'',
      ''preMinVal'', ''preLinearFitPnt0'', ''preLinearFitPnt1'', ''earlyDiastolicDuration_ms'',
      ''preLinearFitVal0'', ''preLinearFitVal1'', ''earlyDiastolicDurationRate'',
      ''lateDiastolicDuration'', ''preSpike_dvdt_max_pnt'', ''preSpike_dvdt_max_val'',
      ''preSpike_dvdt_max_val2'', ''postSpike_dvdt_min_pnt'', ''postSpike_dvdt_min_val'',
      ''postSpike_dvdt_min_val2'', ''isi_pnts'', ''isi_ms'', ''spikeFreq_hz'',
      ''cycleLength_pnts'', ''cycleLength_ms'', ''diastolicDuration_ms'', ''widths'',
      ''widths_50'']"
  by (simp add: spike_items_def demo_spike0_def)

lemma demo_final_spikes: "spikeDict (demo_final now) = [demo_spike0, demo_spike1]"
  by (simp add: demo_final_def)

text \<open>
  Claim C4 as stated fails: on the records of the worked recording the name
  \<open>peakAmplitude\<close> is a key of no spike, and \<open>getStat\<close> returns the empty list.
\<close>

theorem C4_getStat_unknown_name_counterexample:
  "spikeDetect demo_lib (\<lambda>k. ''2021-05-01 12:00:00'') demo_ba (Some demo_cfg)
     = Inr (demo_final ''2021-05-01 12:00:00'') \<and>
   ''peakAmplitude'' \<notin> set (map fst (spike_items demo_spike0)) \<and>
   ''peakAmplitude'' \<notin> set (map fst (spike_items demo_spike1)) \<and>
   getStat (demo_final ''2021-05-01 12:00:00'') ''peakAmplitude'' None SweepAll
     = Inr (StatList [])"
proof -
  have run: "spikeDetect demo_lib (\<lambda>k. ''2021-05-01 12:00:00'') demo_ba (Some demo_cfg)
               = Inr (demo_final ''2021-05-01 12:00:00'')"
    by (simp add: demo_spikeDetect)
  have k0: "''peakAmplitude'' \<notin> set (map fst (spike_items demo_spike0))"
    by (simp add: demo_keys)
  have k1: "''peakAmplitude'' \<notin> set (map fst (spike_items demo_spike1))"
    by (simp add: spike_items_def demo_spike1_def)
  have g: "getStat (demo_final ''2021-05-01 12:00:00'') ''peakAmplitude'' None SweepAll
     = Inr (StatList [])"
    using k0 by (simp add: getStat_def Let_def ebind_def demo_final_spikes)
  show ?thesis using run k0 k1 g by (intro conjI)
qed

text \<open>The amended claim C4 on the same records, for one name and for a pair.\<close>

theorem C4_getStat_unknown_name_returns_empty_witness:
  "''peakAmplitude'' \<notin> set (map fst (spike_items (hd (spikeDict (demo_final ''now''))))) \<and>
   getStat (demo_final ''now'') ''peakAmplitude'' None (SweepNumber 0) = Inr (StatList []) \<and>
   getStat (demo_final ''now'') ''peakAmplitude'' (Some ''peakSec'') (SweepNumber 0)
     = Inr (StatPair [] [])"
proof -
  have k: "''peakAmplitude'' \<notin> set (map fst (spike_items (hd (spikeDict (demo_final ''now'')))))"
    by (simp add: demo_final_spikes demo_keys)
  then have h: "''peakAmplitude'' \<notin> set (map fst (spike_items (hd (spikeDict (demo_final ''now''))))) \<or>
      (\<exists>n2. sn2 = Some n2 \<and> n2 \<notin> set (map fst (spike_items (hd (spikeDict (demo_final ''now''))))))"
    for sn2 :: "string option" by blast
  show ?thesis
    using k C4_getStat_unknown_name_returns_empty[OF h, of None "SweepNumber 0"]
      C4_getStat_unknown_name_returns_empty[OF h, of "Some ''peakSec''" "SweepNumber 0"]
    by simp
qed

lemma demo_sweeps: "sweep demo_spike0 = 0" "sweep demo_spike1 = 0"
  by (simp_all add: demo_spike0_def demo_spike1_def)



subsection \<open>Half-height widths\<close>

text \<open>
  Claim C6 at the first spike of the worked recording, half-height 50. The onset is
  sample 9 and the falling point is sample 15, so the claimed width is 6 ms at one
  point per ms, and \<open>widthPnts\<close> is 6. The recorded \<open>widthMs\<close> and \<open>widths_50\<close> are 4:
  they are computed from \<open>widthPnts = fallingPnt - risingPnt\<close> with the rising point
  found at sample 11, not from \<open>widthPnts2 = fallingPnt - thresholdPnt\<close>.
\<close>

theorem C6_widthMs_from_rising_point:
  "spikeDetect demo_lib (\<lambda>k. ''2021-05-01 12:00:00'') demo_ba (Some demo_cfg)
     = Inr (demo_final ''2021-05-01 12:00:00'') \<and>
   hd (spikeDict (demo_final ''2021-05-01 12:00:00'')) = demo_spike0 \<and>
   thresholdPnt demo_spike0 = 9 \<and>
   map fallingPnt (widths demo_spike0) = [Some 15] \<and>
   map widthPnts (widths demo_spike0) = [Some 6] \<and>
   map widthMs (widths demo_spike0) = [Num 4] \<and>
   widths_flat demo_spike0 = [(''widths_50'', Num 4)] \<and>
   real_of_int (15 - 9) / real_of_int (dataPointsPerMs demo_ba) = 6"
proof -
  have run: "spikeDetect demo_lib (\<lambda>k. ''2021-05-01 12:00:00'') demo_ba (Some demo_cfg)
               = Inr (demo_final ''2021-05-01 12:00:00'')"
    by (simp add: demo_spikeDetect)
  have rest: "thresholdPnt demo_spike0 = 9"
    "map fallingPnt (widths demo_spike0) = [Some 15]"
    "map widthPnts (widths demo_spike0) = [Some 6]"
    "map widthMs (widths demo_spike0) = [Num 4]"
    "widths_flat demo_spike0 = [(''widths_50'', Num 4)]"
    by (simp_all add: demo_spike0_def)
  have dpp: "real_of_int (15 - 9) / real_of_int (dataPointsPerMs demo_ba) = 6"
    by (simp add: demo_ba_def)
  show ?thesis using run rest dpp by (simp add: demo_final_spikes)
qed


subsection \<open>Filtering\<close>

text \<open>
  On the worked recording \<open>rebuildFiltered\<close> gives the same arrays whatever detection
  dictionary was stored: \<open>_getDerivative\<close> is called without it.
\<close>

lemma demo_rebuild_any:
  "rebuildFiltered demo_lib (demo_ba\<lparr> detectionDict := Some d \<rparr>)
     = Inr (demo_ba\<lparr> detectionDict := Some d, filteredVm := Some [demo_fVm],
                      filteredDeriv := Some [demo_fDeriv] \<rparr>)"
  by (simp add: rebuildFiltered_def getDerivative_def demo_filter_column ebind_def
        demo_savgol1 demo_savgol2 demo_ba_def demo_fDeriv_def)

lemma demo_median_no_crossing:
  "spikeDetect_dvdt demo_lib 1 demo_cfg_median demo_fDeriv demo_raw = Inr ([], [])"
  by (simp add: spikeDetect_dvdt_def dvdt_crossings_def threshold_crossings_def eval_defs
        throwOutRefractory_def refractory_marked_def dvdt_backup_def
        demo_cfg_median_def getDefaultDetection_def demo_fDeriv_def upt_conv_Cons
      cong: eval_congs)

lemma demo_median_run:
  "spikeDetect demo_lib clock demo_ba (Some demo_cfg_median) = Inr (demo_final_median (clock 0))"
proof -
  have f: "dvdtThreshold demo_cfg_median = Some (Num 100)"
    "onlyPeaksAbove_mV demo_cfg_median = Some (- 20)"
    by (simp_all add: demo_cfg_median_def getDefaultDetection_def)
  have det: "detect_dvdt demo_lib
      (demo_ba\<lparr> detectionDict := Some demo_cfg_median, filteredVm := Some [demo_fVm],
                filteredDeriv := Some [demo_fDeriv], dateAnalyzed := x, detectionType := y \<rparr>)
      demo_cfg_median 0 = Inr ([], [])" for x y
    using demo_median_no_crossing
    by (simp add: detect_dvdt_def column_opt_def column_def ebind_def demo_ba_def)
  have cols: "sweepX demo_ba = [demo_time]" "sweepC demo_ba = [replicate 47 0]"
    "spikeDict demo_ba = []"
    by (simp_all add: demo_ba_def demo_time_def)
  show ?thesis
    by (simp add: spikeDetect_def spikeDetect_sweep_def demo_ba_reset demo_rebuild_any det f cols
          demo_ba2_fields demo_final_median_def errorReport_def
          ebind_def Let_def column_def column_opt_def enumerate_py_def
        cong: eval_congs)
qed

lemma demo_medfilt_10: "medfilt 3 demo_raw ! 10 = - 60"
  by code_simp

lemma demo_fVm_10: "demo_fVm ! 10 = - (396 / 7)"
  by (simp add: demo_fVm_def)

text \<open>
  Claim C7 at a run whose configuration selects a median filter of width 3. The
  filtered amplitude for that configuration is the median-filtered sweep; the array
  cached by the run is the sweep filtered with the Savitzky-Golay parameters (5, 2) of
  the default dictionary. They differ, for instance at sample 10.
\<close>

theorem C7_filter_of_default_config:
  "spikeDetect demo_lib (\<lambda>k. ''2021-05-01 12:00:00'') demo_ba (Some demo_cfg_median)
     = Inr (demo_final_median ''2021-05-01 12:00:00'') \<and>
   medianFilter demo_cfg_median = 3 \<and>
   getFilteredRecording demo_lib demo_cfg_median (sweepY demo_ba) = Inr [medfilt 3 demo_raw] \<and>
   filteredVm (demo_final_median ''2021-05-01 12:00:00'') = Some [savgol_5_2 demo_raw] \<and>
   medfilt 3 demo_raw ! 10 = - 60 \<and> savgol_5_2 demo_raw ! 10 = - (396 / 7)"
proof -
  have run: "spikeDetect demo_lib (\<lambda>k. ''2021-05-01 12:00:00'') demo_ba (Some demo_cfg_median)
     = Inr (demo_final_median ''2021-05-01 12:00:00'')"
    by (simp add: demo_median_run)
  have m: "medianFilter demo_cfg_median = 3"
    by (simp add: demo_cfg_median_def)
  have claimed: "getFilteredRecording demo_lib demo_cfg_median (sweepY demo_ba)
                   = Inr [medfilt 3 demo_raw]"
    by (simp add: getFilteredRecording_def filter_column_def demo_cfg_median_def demo_ba_def
          ebind_def)
  have cached: "filteredVm (demo_final_median ''2021-05-01 12:00:00'') = Some [savgol_5_2 demo_raw]"
    by (simp add: demo_final_median_def demo_savgol1)
  show ?thesis using run m claimed cached demo_medfilt_10 demo_fVm_10
    by (simp add: demo_savgol1)
qed


subsection \<open>Spike clips\<close>







lemma demo_sweepY: "sweepY (demo_final now) = [demo_raw]"
  by (simp add: demo_final_def demo_ba2_def demo_ba_def)






text \<open>
  A sweep number that the recording does not have: the read of \<open>sweepY\<close> before the loop
  raises, also when no spike is selected.
\<close>

lemma read_sweepY_no_sweep:
  "length (sweepY ba) \<le> n \<Longrightarrow> read_sweepY ba (SweepNumber n) = Inl IndexError"
  by (simp add: read_sweepY_def column_def ebind_def)

lemma demo_makeSpikeClips_no_sweep:
  "makeSpikeClips (demo_final now) (Some 20) None (SweepNumber 5) = Inl IndexError"
proof -
  have pnts: "getStat_ints (demo_final now) ''thresholdPnt'' (SweepNumber 5) = Inr []"
    by (simp add: getStat_ints_def getStat_def Let_def ebind_def demo_final_spikes demo_keys
          stat_values_def sweep_match_def demo_sweeps)
  have rd: "read_sweepY (demo_final now) (SweepNumber 5) = Inl IndexError"
    by (rule read_sweepY_no_sweep) (simp add: demo_sweepY)
  show ?thesis
    unfolding makeSpikeClips_def
    by (simp add: pnts rd ebind_def Let_def cong: eval_congs)
qed

end
